theory Spec2Isabelle
  imports
    Main
    "HOL-Library.Sublist"
    "HOL-Library.Multiset"
    "HOL-Library.Char_ord"
    "HOL-Library.List_Lexorder"
begin

section \<open>Axiom: the intent store of a repository\<close>

text \<open>
  A shallow embedding of \<^verbatim>\<open>intent_core.py\<close> and \<^verbatim>\<open>axiom.py\<close>.

  Conventions of the model.
  \<^item> A Python \<^verbatim>\<open>str\<close> is a \<^typ>\<open>string\<close>; every \<^typ>\<open>char\<close> stands for one character
    (a code point below 256), so \<^const>\<open>length\<close> is Python's \<^verbatim>\<open>len\<close>.
  \<^item> A resolved absolute path is the list of its components below the filesystem root;
    the root itself is \<^term>\<open>[] :: string list\<close>.
  \<^item> \<^verbatim>\<open>sys.exit(message)\<close> and an exception nobody catches are error values
    (\<open>Inl\<close>); the state a failing operation leaves behind is returned beside the error
    wherever the operation writes.
  \<^item> The clock (\<^verbatim>\<open>datetime.now().isoformat()\<close>), the identifier generator
    (\<^verbatim>\<open>str(uuid.uuid4())\<close>), the interactive input and the JSON codec of Python's
    standard library are parameters of the operations that use them.
\<close>

subsection \<open>Strings\<close>

text \<open>SQLite folds the case of the 26 ASCII letters only.\<close>

definition ascii_lower :: "char \<Rightarrow> char" where
  "ascii_lower c =
     (let n = (of_char c :: nat) in if 65 \<le> n \<and> n \<le> 90 then char_of (n + 32) else c)"

definition lower :: "string \<Rightarrow> string" where
  "lower s = map ascii_lower s"

text \<open>\<^verbatim>\<open>str.isspace\<close> on the characters below 256.\<close>

definition isspace :: "char \<Rightarrow> bool" where
  "isspace c =
     (let n = (of_char c :: nat) in (9 \<le> n \<and> n \<le> 13) \<or> (28 \<le> n \<and> n \<le> 32) \<or> n = 133 \<or> n = 160)"

text \<open>\<^verbatim>\<open>str.strip()\<close>: leading and trailing whitespace removed.\<close>

definition strip :: "string \<Rightarrow> string" where
  "strip s = rev (dropWhile isspace (rev (dropWhile isspace s)))"

text \<open>\<^verbatim>\<open>sep.join(xs)\<close>.\<close>

fun join :: "string \<Rightarrow> string list \<Rightarrow> string" where
  "join sep [] = []"
| "join sep [x] = x"
| "join sep (x # y # ys) = x @ sep @ join sep (y # ys)"

text \<open>A value between single quotes, as the f-strings of the messages write it.\<close>

definition quoted :: "string \<Rightarrow> string" where
  "quoted s = [CHR 0x27] @ s @ [CHR 0x27]"

text \<open>The decimal text of a natural number, as an f-string prints \<^verbatim>\<open>len(matches)\<close>.\<close>

definition digit :: "nat \<Rightarrow> char" where
  "digit d = char_of (48 + d)"

function str_nat :: "nat \<Rightarrow> string" where
  "str_nat n = (if n < 10 then [digit n] else str_nat (n div 10) @ [digit (n mod 10)])"
  by pat_completeness auto
termination
  by (relation "measure (\<lambda>n. n)") auto

declare str_nat.simps [simp del]

subsection \<open>Data model\<close>

text \<open>
  A row of the table \<^verbatim>\<open>intents\<close>; the fields are its columns, in the order of the
  \<^verbatim>\<open>CREATE TABLE\<close> statement (\<^verbatim>\<open>id\<close> and \<^verbatim>\<open>context\<close> are renamed: both names are
  taken in Isabelle).
\<close>

record intent =
  intent_id :: string
  title :: string
  problem :: string
  context_text :: string
  constraints :: string
  status :: string
  created_at :: string
  updated_at :: string

text \<open>
  A database file: the names of its tables (the rows of \<^verbatim>\<open>sqlite_master\<close> with
  \<^verbatim>\<open>type='table'\<close>) and the rows of the table \<^verbatim>\<open>intents\<close> in rowid order. Column
  definitions are not modelled: a table that answers to the name \<^verbatim>\<open>intents\<close> is taken to
  have the columns of \<^verbatim>\<open>create_database_schema\<close>. Nothing in the program reads or writes
  the rows of any other table.
\<close>

record database =
  tables :: "string list"
  intents :: "intent list"

text \<open>
  What is at \<^verbatim>\<open>.intent/intent.db\<close>: nothing, a file SQLite refuses
  (\<^verbatim>\<open>sqlite3.DatabaseError\<close>, file is not a database), or a database. An empty file is
  an empty database.
\<close>

datatype db_entry = DbAbsent | DbNotSqlite | DbFile database

text \<open>
  What is at \<^verbatim>\<open>.intent/meta.json\<close>: nothing, a directory (reading and writing it
  raise \<^verbatim>\<open>OSError\<close>), a file whose bytes are not UTF-8 (\<^verbatim>\<open>read_text\<close> raises
  \<^verbatim>\<open>UnicodeDecodeError\<close>), or a text file with its decoded content.
\<close>

datatype meta_entry = MetaAbsent | MetaIsDir | MetaNotUtf8 | MetaFile string

record intent_dir =
  intent_db :: db_entry
  meta_json :: meta_entry

text \<open>What is at \<^verbatim>\<open>.intent\<close> in a directory: nothing, something that is not a directory, or a directory.\<close>

datatype intent_entry = NoEntry | NotADirectory | Directory intent_dir

type_synonym path = "string list"

text \<open>
  The part of the filesystem the program looks at: for every directory \<open>p\<close>, whether
  \<^verbatim>\<open>p/.git\<close> exists and is a directory (\<open>git_dir fs p\<close>), and for every path \<open>q\<close>
  that the program uses as \<^verbatim>\<open>.intent\<close>, what is at \<open>q\<close> (\<open>intent_at fs q\<close>).
\<close>

record filesystem =
  git_dir :: "path \<Rightarrow> bool"
  intent_at :: "path \<Rightarrow> intent_entry"

text \<open>The values \<^verbatim>\<open>json.loads\<close> returns.\<close>

datatype json =
    JObject "(string \<times> json) list"
  | JArray "json list"
  | JString string
  | JInt int
  | JFloat string
  | JBool bool
  | JNull

subsection \<open>Errors\<close>

text \<open>Exceptions that no handler of the program catches.\<close>

datatype exception =
  OperationalError | IntegrityError | DatabaseError | TypeError | UnicodeDecodeError

text \<open>
  One constructor for each \<^verbatim>\<open>sys.exit\<close> of the two files, with the values its message
  interpolates, and one for an uncaught exception.
\<close>

datatype error =
    NotARepository
  | MkdirFailed
  | CreateDbFailed
  | SchemaMismatch "string list" "string list"
  | MetaWriteFailed
  | NotInitialized
  | TitleRequired
  | NoPrefixMatch string
  | AmbiguousPrefix string "string list"
  | IntentNotFound string
  | Uncaught exception

text \<open>
  The text given to \<^verbatim>\<open>sys.exit\<close>. The three messages that end in the operating
  system's own error text stop before it; an uncaught exception has no exit message.
\<close>

fun exit_message :: "error \<Rightarrow> string" where
  "exit_message NotARepository = ''ERROR: .git directory not found. Not in a git repository.''"
| "exit_message MkdirFailed = ''ERROR: Failed to create .intent directory: ''"
| "exit_message CreateDbFailed = ''ERROR: Failed to create intent.db: ''"
| "exit_message (SchemaMismatch missing extra) =
     ''ERROR: Database schema mismatch detected.'' @ [CHR 0x0A]
     @ (if missing \<noteq> [] then ''  Missing tables: '' @ join '', '' missing @ [CHR 0x0A] else [])
     @ (if extra \<noteq> [] then ''  Unexpected tables: '' @ join '', '' extra @ [CHR 0x0A] else [])
     @ [CHR 0x0A]
     @ ''This indicates a schema version conflict.'' @ [CHR 0x0A]
     @ ''Do not attempt automatic migration.'' @ [CHR 0x0A]
     @ ''Manual intervention required.'' @ [CHR 0x0A]
     @ [CHR 0x0A]
     @ ''If you need to reset, backup your data and delete intent.db''"
| "exit_message MetaWriteFailed = ''ERROR: Failed to create meta.json: ''"
| "exit_message NotInitialized =
     ''ERROR: .intent/ not initialized. Run '' @ quoted ''axiom init'' @ '' first.''"
| "exit_message TitleRequired = ''ERROR: Title is required.''"
| "exit_message (NoPrefixMatch pfx) =
     ''ERROR: No intent found matching prefix '' @ quoted pfx @ ''.''"
| "exit_message (AmbiguousPrefix pfx matches) =
     ''ERROR: Ambiguous prefix '' @ quoted pfx @ '' matches '' @ str_nat (length matches)
     @ '' intents:'' @ [CHR 0x0A] @ ''  '' @ join ([CHR 0x0A] @ ''  '') matches"
| "exit_message (IntentNotFound i) = ''ERROR: Intent '' @ quoted i @ '' not found.''"
| "exit_message (Uncaught e) = []"

subsection \<open>Repository locator\<close>

text \<open>\<^verbatim>\<open>Path.parent\<close>: the parent of the filesystem root is the root.\<close>

definition parent :: "path \<Rightarrow> path" where
  "parent p = butlast p"

text \<open>
  \<^verbatim>\<open>find_repo_root\<close>, from the resolved starting path. The loop runs while
  \<^verbatim>\<open>current != current.parent\<close>.
\<close>

function find_repo_root :: "filesystem \<Rightarrow> path \<Rightarrow> error + path" where
  "find_repo_root fs current =
     (if current \<noteq> parent current then
        (if git_dir fs current then Inr current else find_repo_root fs (parent current))
      else Inl NotARepository)"
  by pat_completeness auto
termination
  by (relation "measure (\<lambda>(fs, p). length p)") (auto simp: parent_def intro: Nat.diff_less)

declare find_repo_root.simps [simp del]

text \<open>\<^verbatim>\<open>get_intent_dir\<close>: the path \<^verbatim>\<open>.intent\<close> under the repository root of the working directory.\<close>

definition get_intent_dir :: "filesystem \<Rightarrow> path \<Rightarrow> error + path" where
  "get_intent_dir fs cwd =
     (case find_repo_root fs cwd of Inl e \<Rightarrow> Inl e | Inr repo_root \<Rightarrow> Inr (repo_root @ [''.intent'']))"

subsection \<open>Schema manager\<close>

text \<open>SQLite finds a table by its name without regard to the case of ASCII letters.\<close>

definition has_table :: "database \<Rightarrow> string \<Rightarrow> bool" where
  "has_table db n = (lower n \<in> set (map lower (tables db)))"

text \<open>\<^verbatim>\<open>CREATE TABLE IF NOT EXISTS n\<close>; a new table has no rows.\<close>

definition create_table_if_not_exists :: "string \<Rightarrow> database \<Rightarrow> database" where
  "create_table_if_not_exists n db =
     (if has_table db n then db
      else if n = ''intents'' then db\<lparr>tables := tables db @ [n], intents := []\<rparr>
      else db\<lparr>tables := tables db @ [n]\<rparr>)"

text \<open>
  \<^verbatim>\<open>sqlite3.connect\<close> and the first statement on the connection: a missing file is
  created as an empty database, a file that is no database raises.
\<close>

definition connect :: "db_entry \<Rightarrow> exception + database" where
  "connect e =
     (case e of
        DbAbsent \<Rightarrow> Inr \<lparr>tables = [], intents = []\<rparr>
      | DbNotSqlite \<Rightarrow> Inl DatabaseError
      | DbFile db \<Rightarrow> Inr db)"

text \<open>\<^verbatim>\<open>create_database_schema\<close>: the three statements in their order, then the commit.\<close>

definition create_database_schema :: "db_entry \<Rightarrow> exception + db_entry" where
  "create_database_schema e =
     (case connect e of
        Inl x \<Rightarrow> Inl x
      | Inr db \<Rightarrow>
          Inr (DbFile (create_table_if_not_exists ''decisions''
                 (create_table_if_not_exists ''assumptions''
                    (create_table_if_not_exists ''intents'' db)))))"

definition required_tables :: "string list" where
  "required_tables = [''intents'', ''assumptions'', ''decisions'']"

text \<open>
  The query of \<^verbatim>\<open>ensure_database_schema\<close>:
  \<^verbatim>\<open>SELECT name FROM sqlite_master WHERE type='table' AND name IN ('intents', 'assumptions', 'decisions')\<close>,
  its rows collected in a Python set. The comparison of \<^verbatim>\<open>name\<close> is exact.
\<close>

definition existing_tables :: "database \<Rightarrow> string list" where
  "existing_tables db = remdups (filter (\<lambda>n. n \<in> set required_tables) (tables db))"

text \<open>
  \<^verbatim>\<open>ensure_database_schema\<close>. Python's sets are lists here, compared as sets. Python
  walks a set of strings in an order that changes from run to run, so \<^verbatim>\<open>', '.join\<close>
  can give the names in any order; the model gives them in the order of
  \<open>required_tables\<close>, which is one of them. A failure leaves the file as it was.
\<close>

definition ensure_database_schema :: "db_entry \<Rightarrow> error + db_entry" where
  "ensure_database_schema e =
     (case e of
        DbAbsent \<Rightarrow>
          (case create_database_schema e of Inl x \<Rightarrow> Inl (Uncaught x) | Inr e' \<Rightarrow> Inr e')
      | DbNotSqlite \<Rightarrow> Inl (Uncaught DatabaseError)
      | DbFile db \<Rightarrow>
          (let existing = existing_tables db in
           if set existing \<noteq> set required_tables then
             (let missing = filter (\<lambda>t. t \<notin> set existing) required_tables;
                  extra = filter (\<lambda>t. t \<notin> set required_tables) existing
              in Inl (SchemaMismatch missing extra))
           else Inr e))"

subsection \<open>Metadata store\<close>

definition required_fields :: "string list" where
  "required_fields = [''repo_path'', ''created_at'', ''schema_version'']"

text \<open>
  Python's \<^verbatim>\<open>field in data\<close> for a string \<^verbatim>\<open>field\<close> and a decoded JSON value: a key of a
  dict, an element of a list, a substring of a string; numbers, booleans and
  \<^verbatim>\<open>None\<close> are not iterable.
\<close>

fun py_in :: "string \<Rightarrow> json \<Rightarrow> exception + bool" where
  "py_in f (JObject kvs) = Inr (f \<in> set (map fst kvs))"
| "py_in f (JArray xs) = Inr (JString f \<in> set xs)"
| "py_in f (JString s) = Inr (sublist f s)"
| "py_in f (JInt i) = Inl TypeError"
| "py_in f (JFloat x) = Inl TypeError"
| "py_in f (JBool b) = Inl TypeError"
| "py_in f JNull = Inl TypeError"

text \<open>\<^verbatim>\<open>all(field in data for field in fields)\<close>: it stops at the first miss, and at the first exception.\<close>

fun all_fields_in :: "string list \<Rightarrow> json \<Rightarrow> exception + bool" where
  "all_fields_in [] data = Inr True"
| "all_fields_in (f # fs) data =
     (case py_in f data of
        Inl x \<Rightarrow> Inl x
      | Inr b \<Rightarrow> if b then all_fields_in fs data else Inr False)"

text \<open>\<^verbatim>\<open>str(path)\<close> of a resolved path.\<close>

definition path_str :: "path \<Rightarrow> string" where
  "path_str p = (if p = [] then ''/'' else concat (map (\<lambda>c. ''/'' @ c) p))"

text \<open>The dict \<^verbatim>\<open>meta_data\<close> that \<^verbatim>\<open>ensure_meta_json\<close> writes.\<close>

definition meta_data :: "path \<Rightarrow> string \<Rightarrow> json" where
  "meta_data repo_root now =
     JObject [(''repo_path'', JString (path_str repo_root)),
              (''created_at'', JString now),
              (''schema_version'', JString ''0.1'')]"

text \<open>
  The first half of \<^verbatim>\<open>ensure_meta_json\<close>: the value of \<^verbatim>\<open>needs_init\<close>. \<open>loads\<close> is
  \<^verbatim>\<open>json.loads\<close>, with \<open>None\<close> for \<^verbatim>\<open>JSONDecodeError\<close>. The handler catches
  \<^verbatim>\<open>JSONDecodeError\<close> and \<^verbatim>\<open>OSError\<close>, so the \<^verbatim>\<open>UnicodeDecodeError\<close> of \<^verbatim>\<open>read_text\<close> and
  the \<^verbatim>\<open>TypeError\<close> of \<^verbatim>\<open>field in data\<close> leave the function. The two other exceptions
  \<^verbatim>\<open>json.loads\<close> can raise (\<^verbatim>\<open>RecursionError\<close> on very deep nesting, \<^verbatim>\<open>ValueError\<close> on an
  integer beyond the interpreter's digit limit) have no value in the type of \<open>loads\<close>
  and are outside the model.
\<close>

definition needs_init :: "(string \<Rightarrow> json option) \<Rightarrow> meta_entry \<Rightarrow> exception + bool" where
  "needs_init loads m =
     (case m of
        MetaAbsent \<Rightarrow> Inr True
      | MetaIsDir \<Rightarrow> Inr True
      | MetaNotUtf8 \<Rightarrow> Inl UnicodeDecodeError
      | MetaFile text \<Rightarrow>
          (let content = strip text in
           if content = [] then Inr True
           else (case loads content of
                   None \<Rightarrow> Inr True
                 | Some data \<Rightarrow>
                     (case all_fields_in required_fields data of
                        Inl x \<Rightarrow> Inl x
                      | Inr b \<Rightarrow> Inr (\<not> b)))))"

text \<open>
  \<^verbatim>\<open>ensure_meta_json\<close>; \<open>dumps\<close> is \<^verbatim>\<open>json.dumps(_, indent=2)\<close>. A failure leaves the
  entry as it was.
\<close>

definition ensure_meta_json ::
  "(string \<Rightarrow> json option) \<Rightarrow> (json \<Rightarrow> string) \<Rightarrow> string \<Rightarrow> path \<Rightarrow> meta_entry \<Rightarrow> error + meta_entry" where
  "ensure_meta_json loads dumps now repo_root m =
     (case needs_init loads m of
        Inl x \<Rightarrow> Inl (Uncaught x)
      | Inr b \<Rightarrow>
          if b then
            (if m = MetaIsDir then Inl MetaWriteFailed
             else Inr (MetaFile (dumps (meta_data repo_root now))))
          else Inr m)"

subsection \<open>Initialization\<close>

text \<open>\<^verbatim>\<open>intent_dir.mkdir(exist_ok=True)\<close>: \<open>None\<close> is \<^verbatim>\<open>FileExistsError\<close>.\<close>

definition mkdir_exist_ok :: "intent_entry \<Rightarrow> intent_dir option" where
  "mkdir_exist_ok e =
     (case e of
        NoEntry \<Rightarrow> Some \<lparr>intent_db = DbAbsent, meta_json = MetaAbsent\<rparr>
      | NotADirectory \<Rightarrow> None
      | Directory d \<Rightarrow> Some d)"

definition put_intent_dir :: "filesystem \<Rightarrow> path \<Rightarrow> intent_dir \<Rightarrow> filesystem" where
  "put_intent_dir fs q d = fs\<lparr>intent_at := (intent_at fs)(q := Directory d)\<rparr>"

text \<open>The exceptions under \<^verbatim>\<open>sqlite3.Error\<close>.\<close>

definition sqlite_error :: "exception \<Rightarrow> bool" where
  "sqlite_error x = (x = OperationalError \<or> x = IntegrityError \<or> x = DatabaseError)"

text \<open>
  \<^verbatim>\<open>init_intent_structure\<close>, from the working directory: its result and the
  filesystem it leaves. The handler around \<^verbatim>\<open>ensure_database_schema\<close> catches
  \<^verbatim>\<open>sqlite3.Error\<close>, not the \<^verbatim>\<open>SystemExit\<close> of a schema mismatch.
\<close>

definition init_intent_structure ::
  "(string \<Rightarrow> json option) \<Rightarrow> (json \<Rightarrow> string) \<Rightarrow> string \<Rightarrow> filesystem \<Rightarrow> path \<Rightarrow> (error + path) \<times> filesystem" where
  "init_intent_structure loads dumps now fs cwd =
     (case find_repo_root fs cwd of
        Inl e \<Rightarrow> (Inl e, fs)
      | Inr repo_root \<Rightarrow>
          (let intent_dir = repo_root @ [''.intent''] in
           case mkdir_exist_ok (intent_at fs intent_dir) of
             None \<Rightarrow> (Inl MkdirFailed, fs)
           | Some d \<Rightarrow>
               (case ensure_database_schema (intent_db d) of
                  Inl e \<Rightarrow>
                    (Inl (case e of Uncaught x \<Rightarrow> if sqlite_error x then CreateDbFailed else e | _ \<Rightarrow> e),
                     put_intent_dir fs intent_dir d)
                | Inr db' \<Rightarrow>
                    (case ensure_meta_json loads dumps now repo_root (meta_json d) of
                       Inl e \<Rightarrow> (Inl e, put_intent_dir fs intent_dir (d\<lparr>intent_db := db'\<rparr>))
                     | Inr m' \<Rightarrow>
                         (Inr intent_dir,
                          put_intent_dir fs intent_dir (d\<lparr>intent_db := db', meta_json := m'\<rparr>))))))"

subsection \<open>Record store and identifier resolver\<close>

text \<open>\<^verbatim>\<open>intent_db.exists()\<close> for \<^verbatim>\<open>intent_db = intent_dir / 'intent.db'\<close>.\<close>

definition intent_db_file :: "filesystem \<Rightarrow> path \<Rightarrow> db_entry" where
  "intent_db_file fs intent_dir =
     (case intent_at fs intent_dir of Directory d \<Rightarrow> intent_db d | _ \<Rightarrow> DbAbsent)"

text \<open>
  The \<^verbatim>\<open>INSERT\<close> of \<^verbatim>\<open>cmd_new\<close>: \<^verbatim>\<open>id\<close> is the primary key, so a second row with a
  stored id is refused.
\<close>

definition insert_intent :: "database \<Rightarrow> intent \<Rightarrow> exception + database" where
  "insert_intent db r =
     (if \<not> has_table db ''intents'' then Inl OperationalError
      else if intent_id r \<in> set (map intent_id (intents db)) then Inl IntegrityError
      else Inr (db\<lparr>intents := intents db @ [r]\<rparr>))"

text \<open>The commit of a connection on \<^verbatim>\<open>intent_dir / 'intent.db'\<close>, an existing file.\<close>

definition write_intent_db :: "filesystem \<Rightarrow> path \<Rightarrow> database \<Rightarrow> filesystem" where
  "write_intent_db fs intent_dir db =
     (case intent_at fs intent_dir of
        Directory d \<Rightarrow> put_intent_dir fs intent_dir (d\<lparr>intent_db := DbFile db\<rparr>)
      | _ \<Rightarrow> fs)"

text \<open>
  \<^verbatim>\<open>cmd_new\<close>. \<open>title_line\<close> is the line read at the prompt \<^verbatim>\<open>Title:\<close>; \<open>problem_text\<close>,
  \<open>context_in\<close> and \<open>constraints_text\<close> are what the three calls of \<^verbatim>\<open>read_multiline\<close>
  return; \<open>uuid\<close> is \<^verbatim>\<open>str(uuid.uuid4())\<close> and \<open>now\<close> the clock's text. The result is
  the id of the new intent, which the command prints.
\<close>

definition cmd_new ::
  "filesystem \<Rightarrow> path \<Rightarrow> string \<Rightarrow> string \<Rightarrow> string \<Rightarrow> string \<Rightarrow> string \<Rightarrow> string \<Rightarrow> (error + string) \<times> filesystem" where
  "cmd_new fs cwd title_line problem_text context_in constraints_text uuid now =
     (case get_intent_dir fs cwd of
        Inl e \<Rightarrow> (Inl e, fs)
      | Inr intent_dir \<Rightarrow>
          if intent_db_file fs intent_dir = DbAbsent then (Inl NotInitialized, fs)
          else if strip title_line = [] then (Inl TitleRequired, fs)
          else
            (case connect (intent_db_file fs intent_dir) of
               Inl x \<Rightarrow> (Inl (Uncaught x), fs)
             | Inr db \<Rightarrow>
                 (case insert_intent db
                         \<lparr>intent_id = uuid, title = strip title_line, problem = problem_text,
                          context_text = context_in, constraints = constraints_text,
                          status = ''draft'', created_at = now, updated_at = now\<rparr> of
                    Inl x \<Rightarrow> (Inl (Uncaught x), fs)
                  | Inr db' \<Rightarrow> (Inr uuid, write_intent_db fs intent_dir db'))))"

text \<open>
  The query of \<^verbatim>\<open>cmd_list\<close>: the four columns of every row,
  \<^verbatim>\<open>ORDER BY created_at DESC\<close>. Text compares by code points; rows with equal keys keep
  their rowid order.
\<close>

definition list_row :: "intent \<Rightarrow> string \<times> string \<times> string \<times> string" where
  "list_row r = (intent_id r, title r, status r, created_at r)"

definition select_intents :: "database \<Rightarrow> exception + (string \<times> string \<times> string \<times> string) list" where
  "select_intents db =
     (if \<not> has_table db ''intents'' then Inl OperationalError
      else Inr (map list_row (rev (sort_key created_at (rev (intents db))))))"

text \<open>\<^verbatim>\<open>cmd_list\<close>: the rows it fetches and then prints.\<close>

definition cmd_list :: "filesystem \<Rightarrow> path \<Rightarrow> error + (string \<times> string \<times> string \<times> string) list" where
  "cmd_list fs cwd =
     (case get_intent_dir fs cwd of
        Inl e \<Rightarrow> Inl e
      | Inr intent_dir \<Rightarrow>
          if intent_db_file fs intent_dir = DbAbsent then Inl NotInitialized
          else
            (case connect (intent_db_file fs intent_dir) of
               Inl x \<Rightarrow> Inl (Uncaught x)
             | Inr db \<Rightarrow>
                 (case select_intents db of Inl x \<Rightarrow> Inl (Uncaught x) | Inr rows \<Rightarrow> Inr rows)))"

text \<open>
  SQLite's \<^verbatim>\<open>string LIKE pattern\<close> with no \<^verbatim>\<open>ESCAPE\<close>, pattern first: \<^verbatim>\<open>%\<close> matches any
  run of characters, \<^verbatim>\<open>_\<close> any one character, every other character itself up to the
  case of ASCII letters.
\<close>

fun like :: "string \<Rightarrow> string \<Rightarrow> bool" where
  "like [] [] = True"
| "like [] (x # s) = False"
| "like (c # p) [] = (c = CHR ''%'' \<and> like p [])"
| "like (c # p) (x # s) =
     (if c = CHR ''%'' then like p (x # s) \<or> like (c # p) s
      else (c = CHR ''_'' \<or> ascii_lower c = ascii_lower x) \<and> like p s)"

text \<open>
  \<^verbatim>\<open>find_intent_by_prefix\<close>, on the open database: \<^verbatim>\<open>SELECT id FROM intents WHERE id LIKE ?\<close>
  with the parameter \<^verbatim>\<open>f"{prefix}%"\<close>. SQLite answers the query by a scan of the primary
  key's index, so the ids come in ascending order.
\<close>

definition select_ids_like :: "database \<Rightarrow> string \<Rightarrow> string list" where
  "select_ids_like db pattern = sort (filter (like pattern) (map intent_id (intents db)))"

definition find_intent_by_prefix :: "database \<Rightarrow> string \<Rightarrow> error + string" where
  "find_intent_by_prefix db pfx =
     (if \<not> has_table db ''intents'' then Inl (Uncaught OperationalError)
      else
        (let matches = select_ids_like db (pfx @ ''%'') in
         case matches of
           [] \<Rightarrow> Inl (NoPrefixMatch pfx)
         | m # ms \<Rightarrow> if length matches > 1 then Inl (AmbiguousPrefix pfx matches) else Inr m))"

text \<open>The query of \<^verbatim>\<open>cmd_show\<close>, \<^verbatim>\<open>WHERE id = ?\<close>, and its \<^verbatim>\<open>fetchone\<close>.\<close>

definition select_intent :: "database \<Rightarrow> string \<Rightarrow> exception + intent option" where
  "select_intent db i =
     (if \<not> has_table db ''intents'' then Inl OperationalError
      else Inr (find (\<lambda>r. intent_id r = i) (intents db)))"

text \<open>\<^verbatim>\<open>cmd_show\<close>: the row it fetches and then prints.\<close>

definition cmd_show :: "filesystem \<Rightarrow> path \<Rightarrow> string \<Rightarrow> error + intent" where
  "cmd_show fs cwd intent_id_arg =
     (case get_intent_dir fs cwd of
        Inl e \<Rightarrow> Inl e
      | Inr intent_dir \<Rightarrow>
          if intent_db_file fs intent_dir = DbAbsent then Inl NotInitialized
          else
            (case connect (intent_db_file fs intent_dir) of
               Inl x \<Rightarrow> Inl (Uncaught x)
             | Inr db \<Rightarrow>
                 (case (if length intent_id_arg \<ge> 6 \<and> length intent_id_arg < 36
                        then find_intent_by_prefix db intent_id_arg
                        else Inr intent_id_arg) of
                    Inl e \<Rightarrow> Inl e
                  | Inr i \<Rightarrow>
                      (case select_intent db i of
                         Inl x \<Rightarrow> Inl (Uncaught x)
                       | Inr None \<Rightarrow> Inl (IntentNotFound i)
                       | Inr (Some r) \<Rightarrow> Inr r))))"

subsection \<open>Sample states\<close>

text \<open>
  A repository at \<^verbatim>\<open>/home/dev/proj\<close> with an initialized \<^verbatim>\<open>.intent\<close>, two stored
  intents whose ids share their first eight characters and a third one, and the working
  directory
  \<^verbatim>\<open>/home/dev/proj/src\<close>. The concrete checks below run on it.
\<close>

definition sample_root :: path where
  "sample_root = [''home'', ''dev'', ''proj'']"

definition sample_cwd :: path where
  "sample_cwd = [''home'', ''dev'', ''proj'', ''src'']"

definition retry_intent :: intent where
  "retry_intent =
     \<lparr>intent_id = ''3f2b8c1e-7a4d-4e9b-8c2f-1a2b3c4d5e6f'', title = ''Add retry logic'',
      problem = ''Calls fail'', context_text = ''Flaky network'', constraints = ''No new dependency'',
      status = ''draft'', created_at = ''2026-01-05T10:00:00.000001'',
      updated_at = ''2026-01-05T10:00:00.000001''\<rparr>"

definition limit_intent :: intent where
  "limit_intent =
     \<lparr>intent_id = ''3f2b8c1e-90ab-4cde-8f01-23456789abcd'', title = ''Add rate limiting'',
      problem = ''Too many calls'', context_text = ''Public API'', constraints = [],
      status = ''draft'', created_at = ''2026-01-05T10:05:00.000002'',
      updated_at = ''2026-01-05T10:05:00.000002''\<rparr>"

definition cache_intent :: intent where
  "cache_intent =
     \<lparr>intent_id = ''c0ffee00-1234-4abc-8def-0123456789ab'', title = ''Cache the index'',
      problem = ''Slow start'', context_text = [], constraints = ''Keep it small'',
      status = ''draft'', created_at = ''2026-01-05T10:02:00.000005'',
      updated_at = ''2026-01-05T10:02:00.000005''\<rparr>"

definition sample_db :: database where
  "sample_db =
     \<lparr>tables = [''intents'', ''assumptions'', ''decisions''],
      intents = [retry_intent, limit_intent, cache_intent]\<rparr>"

text \<open>A descriptor as \<^verbatim>\<open>json.dumps(meta_data, indent=2)\<close> writes it, and what \<^verbatim>\<open>json.loads\<close> reads from it.\<close>

definition sample_meta_text :: string where
  \<open>sample_meta_text =
     ''{'' @ [CHR 0x0A] @
     ''  "repo_path": "/home/dev/proj",'' @ [CHR 0x0A] @
     ''  "created_at": "2026-01-05T09:59:00.000003",'' @ [CHR 0x0A] @
     ''  "schema_version": "0.1"'' @ [CHR 0x0A] @
     ''}''\<close>

definition sample_meta_value :: json where
  "sample_meta_value =
     JObject [(''repo_path'', JString ''/home/dev/proj''),
              (''created_at'', JString ''2026-01-05T09:59:00.000003''),
              (''schema_version'', JString ''0.1'')]"

text \<open>
  The JSON codec is a parameter of the model. In the concrete checks this finite table
  stands for \<^verbatim>\<open>json.loads\<close>: the sample descriptor, and the JSON text \<^verbatim>\<open>42\<close>.
\<close>

definition sample_loads :: "string \<Rightarrow> json option" where
  "sample_loads = map_of [(sample_meta_text, sample_meta_value), (''42'', JInt 42)]"

definition sample_dumps :: "json \<Rightarrow> string" where
  "sample_dumps j = (if j = sample_meta_value then sample_meta_text else [])"

definition sample_dir :: intent_dir where
  "sample_dir = \<lparr>intent_db = DbFile sample_db, meta_json = MetaFile sample_meta_text\<rparr>"

definition sample_fs :: filesystem where
  "sample_fs =
     \<lparr>git_dir = (\<lambda>p. p = sample_root),
      intent_at = (\<lambda>q. if q = sample_root @ [''.intent''] then Directory sample_dir else NoEntry)\<rparr>"

text \<open>
  The same repository with a drifted database (a table is unexpected, one is missing)
  and no descriptor.
\<close>

definition drifted_db :: database where
  "drifted_db =
     \<lparr>tables = [''intents'', ''assumptions'', ''legacy_notes''], intents = [retry_intent]\<rparr>"

definition drifted_dir :: intent_dir where
  "drifted_dir = \<lparr>intent_db = DbFile drifted_db, meta_json = MetaAbsent\<rparr>"

definition drifted_fs :: filesystem where
  "drifted_fs =
     \<lparr>git_dir = (\<lambda>p. p = sample_root),
      intent_at = (\<lambda>q. if q = sample_root @ [''.intent''] then Directory drifted_dir else NoEntry)\<rparr>"

text \<open>The same repository right after its initialization: no intent is stored.\<close>

definition fresh_db :: database where
  "fresh_db = \<lparr>tables = [''intents'', ''assumptions'', ''decisions''], intents = []\<rparr>"

definition fresh_dir :: intent_dir where
  "fresh_dir = \<lparr>intent_db = DbFile fresh_db, meta_json = MetaFile sample_meta_text\<rparr>"

definition fresh_fs :: filesystem where
  "fresh_fs =
     \<lparr>git_dir = (\<lambda>p. p = sample_root),
      intent_at = (\<lambda>q. if q = sample_root @ [''.intent''] then Directory fresh_dir else NoEntry)\<rparr>"

text \<open>A filesystem whose only \<^verbatim>\<open>.git\<close> directory is at the filesystem root.\<close>

definition root_marker_fs :: filesystem where
  "root_marker_fs = \<lparr>git_dir = (\<lambda>p. p = []), intent_at = (\<lambda>q. NoEntry)\<rparr>"

text \<open>A database with the three required tables and one more.\<close>

definition extra_table_db :: database where
  "extra_table_db =
     \<lparr>tables = [''intents'', ''assumptions'', ''decisions'', ''legacy_notes''], intents = [retry_intent]\<rparr>"

section \<open>Properties\<close>

subsection \<open>Repository locator\<close>

lemma parent_eq_iff: "p \<noteq> parent p \<longleftrightarrow> p \<noteq> []"
  by (cases p rule: rev_cases) (simp_all add: parent_def)

lemma find_repo_root_root: "find_repo_root fs [] = Inl NotARepository"
  by (subst find_repo_root.simps) (simp add: parent_def)

lemma find_repo_root_snoc:
  "find_repo_root fs (p @ [d]) = (if git_dir fs (p @ [d]) then Inr (p @ [d]) else find_repo_root fs p)"
  by (subst find_repo_root.simps) (simp add: parent_def)

subsection \<open>Shared facts\<close>

lemma get_intent_dir_Inr:
  "find_repo_root fs cwd = Inr repo_root \<Longrightarrow> get_intent_dir fs cwd = Inr (repo_root @ [''.intent''])"
  by (simp add: get_intent_dir_def)

lemma put_intent_dir_same:
  "intent_at fs q = Directory d \<Longrightarrow> put_intent_dir fs q d = fs"
  by (simp add: put_intent_dir_def fun_upd_idem)

lemma intent_at_put [simp]: "intent_at (put_intent_dir fs q d) q = Directory d"
  by (simp add: put_intent_dir_def)

lemma git_dir_put [simp]: "git_dir (put_intent_dir fs q d) = git_dir fs"
  by (simp add: put_intent_dir_def)

lemma find_repo_root_cong:
  "git_dir fs' = git_dir fs \<Longrightarrow> find_repo_root fs' p = find_repo_root fs p"
proof (induction p rule: rev_induct)
  case Nil
  show ?case by (simp add: find_repo_root_root)
next
  case (snoc d p)
  then show ?case by (simp add: find_repo_root_snoc)
qed

lemma existing_tables_exact:
  "set (tables db) = set required_tables \<Longrightarrow> set (existing_tables db) = set required_tables"
  by (auto simp: existing_tables_def)

lemma ensure_database_schema_exact:
  "set (tables db) = set required_tables \<Longrightarrow> ensure_database_schema (DbFile db) = Inr (DbFile db)"
  by (simp add: ensure_database_schema_def existing_tables_exact)

lemma existing_tables_set:
  "set (existing_tables db) = set (tables db) \<inter> set required_tables"
  by (auto simp: existing_tables_def)

lemma ensure_database_schema_DbFile:
  "ensure_database_schema (DbFile db) =
     (if set required_tables \<subseteq> set (tables db) then Inr (DbFile db)
      else Inl (SchemaMismatch (filter (\<lambda>t. t \<notin> set (tables db)) required_tables) []))"
proof -
  have extra: "filter (\<lambda>t. t \<notin> set required_tables) (existing_tables db) = []"
    by (auto simp: filter_empty_conv existing_tables_set)
  have missing: "filter (\<lambda>t. t \<notin> set (existing_tables db)) required_tables
      = filter (\<lambda>t. t \<notin> set (tables db)) required_tables"
    by (rule filter_cong) (auto simp: existing_tables_set)
  have eq: "set (existing_tables db) = set required_tables \<longleftrightarrow> set required_tables \<subseteq> set (tables db)"
    by (auto simp: existing_tables_set)
  show ?thesis
    by (simp add: ensure_database_schema_def Let_def extra missing eq)
qed

lemma all_fields_in_object:
  "all_fields_in fs (JObject kvs) = Inr (set fs \<subseteq> set (map fst kvs))"
  by (induction fs) auto

lemma needs_init_valid:
  assumes "strip body \<noteq> []" and "loads (strip body) = Some (JObject kvs)"
    and "set required_fields \<subseteq> set (map fst kvs)"
  shows "needs_init loads (MetaFile body) = Inr False"
  using assms by (simp add: needs_init_def all_fields_in_object)

lemma sample_find_repo_root: "find_repo_root sample_fs sample_cwd = Inr sample_root"
  by (simp add: find_repo_root.simps parent_def sample_fs_def sample_cwd_def sample_root_def)

lemma sample_strip_meta: "strip sample_meta_text = sample_meta_text"
  by (simp add: strip_def sample_meta_text_def isspace_def)

lemma sample_loads_meta: "sample_loads sample_meta_text = Some sample_meta_value"
  by (simp add: sample_loads_def)


lemma intent_db_file_Directory:
  "intent_at fs q = Directory d \<Longrightarrow> intent_db_file fs q = intent_db d"
  by (simp add: intent_db_file_def)

lemma write_intent_db_Directory:
  "intent_at fs q = Directory d \<Longrightarrow>
   write_intent_db fs q db = put_intent_dir fs q (d\<lparr>intent_db := DbFile db\<rparr>)"
  by (simp add: write_intent_db_def)

lemma find_fresh_append:
  "i \<notin> set (map intent_id rows) \<Longrightarrow> intent_id r = i \<Longrightarrow>
   find (\<lambda>x. intent_id x = i) (rows @ [r]) = Some r"
  by (induction rows) auto

lemma has_table_intents_update [simp]:
  "has_table (db\<lparr>intents := rows\<rparr>) n = has_table db n"
  by (simp add: has_table_def)

text \<open>What the three commands do in an initialized repository.\<close>

lemma cmd_new_initialized:
  assumes "find_repo_root fs cwd = Inr repo_root"
    and "intent_at fs (repo_root @ [''.intent'']) = Directory d"
    and "intent_db d = DbFile db"
    and "has_table db ''intents''"
    and "strip title_line \<noteq> []"
    and "uuid \<notin> set (map intent_id (intents db))"
  shows "cmd_new fs cwd title_line p c k uuid now =
    (Inr uuid,
     put_intent_dir fs (repo_root @ [''.intent''])
       (d\<lparr>intent_db := DbFile (db\<lparr>intents := intents db @
          [\<lparr>intent_id = uuid, title = strip title_line, problem = p, context_text = c,
            constraints = k, status = ''draft'', created_at = now, updated_at = now\<rparr>]\<rparr>)\<rparr>))"
  using assms
  by (simp add: cmd_new_def get_intent_dir_Inr intent_db_file_Directory connect_def
      insert_intent_def write_intent_db_Directory)

lemma cmd_show_initialized:
  assumes "find_repo_root fs cwd = Inr repo_root"
    and "intent_at fs (repo_root @ [''.intent'']) = Directory d"
    and "intent_db d = DbFile db"
    and "has_table db ''intents''"
  shows "cmd_show fs cwd a =
    (case (if 6 \<le> length a \<and> length a < 36 then find_intent_by_prefix db a else Inr a) of
       Inl e \<Rightarrow> Inl e
     | Inr i \<Rightarrow> (case find (\<lambda>r. intent_id r = i) (intents db) of
                   None \<Rightarrow> Inl (IntentNotFound i) | Some r \<Rightarrow> Inr r))"
  using assms
  by (simp add: cmd_show_def get_intent_dir_Inr intent_db_file_Directory connect_def
      select_intent_def split: sum.splits option.splits)

lemma cmd_list_initialized:
  assumes "find_repo_root fs cwd = Inr repo_root"
    and "intent_at fs (repo_root @ [''.intent'']) = Directory d"
    and "intent_db d = DbFile db"
    and "has_table db ''intents''"
  shows "cmd_list fs cwd = Inr (map list_row (rev (sort_key created_at (rev (intents db)))))"
  using assms
  by (simp add: cmd_list_def get_intent_dir_Inr intent_db_file_Directory connect_def
      select_intents_def)

lemma sample_intent_at: "intent_at sample_fs (sample_root @ [''.intent'']) = Directory sample_dir"
  by (simp add: sample_fs_def)

lemma sample_intent_db: "intent_db sample_dir = DbFile sample_db"
  by (simp add: sample_dir_def)

lemma sample_has_table: "has_table sample_db ''intents''"
  by (simp add: has_table_def sample_db_def lower_def ascii_lower_def)

lemma sample_ids:
  "map intent_id (intents sample_db) =
     [''3f2b8c1e-7a4d-4e9b-8c2f-1a2b3c4d5e6f'', ''3f2b8c1e-90ab-4cde-8f01-23456789abcd'',
      ''c0ffee00-1234-4abc-8def-0123456789ab'']"
  by (simp add: sample_db_def retry_intent_def limit_intent_def cache_intent_def)

lemma quoted_names: "sublist a (p @ quoted a @ s)"
proof -
  have "p @ quoted a @ s = (p @ [CHR 0x27]) @ a @ ([CHR 0x27] @ s)"
    by (simp add: quoted_def)
  then show ?thesis
    by (metis sublist_appendI)
qed

lemma find_None_length:
  "list_all (\<lambda>r. length (intent_id r) = 36) rows \<Longrightarrow> length a \<noteq> 36 \<Longrightarrow>
   find (\<lambda>r. intent_id r = a) rows = None"
  by (induction rows) auto

lemma find_intent_by_prefix_no_mismatch:
  "find_intent_by_prefix db a \<noteq> Inl (SchemaMismatch ms xs)
   \<and> find_intent_by_prefix db a \<noteq> Inl NotInitialized"
  by (simp add: find_intent_by_prefix_def Let_def split: list.splits)

lemma cmd_show_no_mismatch: "cmd_show fs cwd a \<noteq> Inl (SchemaMismatch ms xs)"
proof -
  have "find_repo_root fs cwd \<noteq> Inl (SchemaMismatch ms xs)"
    by (induction cwd rule: rev_induct) (simp_all add: find_repo_root_root find_repo_root_snoc)
  then show ?thesis
    using find_intent_by_prefix_no_mismatch [of db a ms xs for db]
    by (auto simp: cmd_show_def get_intent_dir_def split: sum.splits option.splits)
qed

lemma find_repo_root_no_mismatch:
  "find_repo_root fs cwd \<noteq> Inl (SchemaMismatch ms xs)"
  by (induction cwd rule: rev_induct) (simp_all add: find_repo_root_root find_repo_root_snoc)

lemma cmd_list_no_mismatch: "cmd_list fs cwd \<noteq> Inl (SchemaMismatch ms xs)"
  using find_repo_root_no_mismatch [of fs cwd ms xs]
  by (auto simp: cmd_list_def get_intent_dir_def split: sum.splits)

lemma cmd_new_no_mismatch:
  "fst (cmd_new fs cwd t p c k u now) \<noteq> Inl (SchemaMismatch ms xs)"
  using find_repo_root_no_mismatch [of fs cwd ms xs]
  by (auto simp: cmd_new_def get_intent_dir_def split: sum.splits)

lemma intent_db_file_meta:
  "intent_at fs q = Directory d \<Longrightarrow>
   intent_db_file (put_intent_dir fs q (d\<lparr>meta_json := m\<rparr>)) q' = intent_db_file fs q'"
  by (simp add: intent_db_file_def put_intent_dir_def)

lemma get_intent_dir_meta:
  "get_intent_dir (put_intent_dir fs q d') cwd = get_intent_dir fs cwd"
  by (simp add: get_intent_dir_def find_repo_root_cong [of "put_intent_dir fs q d'" fs])

lemma drifted_find_repo_root: "find_repo_root drifted_fs sample_cwd = Inr sample_root"
  by (simp add: find_repo_root.simps parent_def drifted_fs_def sample_cwd_def sample_root_def)

lemma drifted_intent_at: "intent_at drifted_fs (sample_root @ [''.intent'']) = Directory drifted_dir"
  by (simp add: drifted_fs_def)

lemma drifted_has_table: "has_table drifted_db ''intents''"
  by (simp add: has_table_def drifted_db_def lower_def ascii_lower_def)

lemma sublist_append_left: "sublist xs zs \<Longrightarrow> sublist xs (ys @ zs)"
  by (metis append.assoc sublist_def)

lemma join_names: "m \<in> set ms \<Longrightarrow> sublist m (join sep ms)"
proof (induction sep ms rule: join.induct)
  case (1 sep)
  then show ?case by simp
next
  case (2 sep x)
  then show ?case by simp
next
  case (3 sep x y ys)
  show ?case
  proof (cases "m = x")
    case True
    then show ?thesis by simp
  next
    case False
    with 3 have "sublist m (join sep (y # ys))" by simp
    then have "sublist m ((x @ sep) @ join sep (y # ys))"
      by (rule sublist_append_left)
    then show ?thesis by simp
  qed
qed

lemma ambiguous_names_prefix: "sublist pfx (exit_message (AmbiguousPrefix pfx ms))"
  unfolding exit_message.simps by (rule quoted_names)

lemma ambiguous_lists_matches:
  assumes "m \<in> set ms"
  shows "sublist m (exit_message (AmbiguousPrefix pfx ms))"
proof -
  have "sublist m (join ([CHR 0x0A] @ ''  '') ms)"
    by (rule join_names [OF assms])
  then have "sublist m ((''ERROR: Ambiguous prefix '' @ quoted pfx @ '' matches '' @ str_nat (length ms)
     @ '' intents:'' @ [CHR 0x0A] @ ''  '') @ join ([CHR 0x0A] @ ''  '') ms)"
    by (rule sublist_append_left)
  then show ?thesis by simp
qed

lemma find_intent_by_prefix_cases:
  assumes "has_table db ''intents''"
  shows "(select_ids_like db (pfx @ ''%'') = [] \<longrightarrow>
            find_intent_by_prefix db pfx = Inl (NoPrefixMatch pfx)
            \<and> sublist pfx (exit_message (NoPrefixMatch pfx)))
    \<and> (\<forall>m. select_ids_like db (pfx @ ''%'') = [m] \<longrightarrow> find_intent_by_prefix db pfx = Inr m)
    \<and> (2 \<le> length (select_ids_like db (pfx @ ''%'')) \<longrightarrow>
            find_intent_by_prefix db pfx = Inl (AmbiguousPrefix pfx (select_ids_like db (pfx @ ''%'')))
            \<and> sublist pfx (exit_message (AmbiguousPrefix pfx (select_ids_like db (pfx @ ''%''))))
            \<and> list_all (\<lambda>m. sublist m (exit_message (AmbiguousPrefix pfx (select_ids_like db (pfx @ ''%'')))))
                 (select_ids_like db (pfx @ ''%'')))"
proof -
  let ?ms = "select_ids_like db (pfx @ ''%'')"
  have zero: "find_intent_by_prefix db pfx = Inl (NoPrefixMatch pfx)" if "?ms = []"
    using assms that by (simp add: find_intent_by_prefix_def)
  have zero_msg: "sublist pfx (exit_message (NoPrefixMatch pfx))"
    unfolding exit_message.simps by (rule quoted_names)
  have one: "find_intent_by_prefix db pfx = Inr m" if "?ms = [m]" for m
    using assms that by (simp add: find_intent_by_prefix_def)
  have many: "find_intent_by_prefix db pfx = Inl (AmbiguousPrefix pfx ?ms)" if "2 \<le> length ?ms"
    using assms that by (cases ?ms) (auto simp: find_intent_by_prefix_def)
  have many_msg: "list_all (\<lambda>m. sublist m (exit_message (AmbiguousPrefix pfx ?ms))) ?ms"
    unfolding list_all_iff using ambiguous_lists_matches by blast
  from zero zero_msg one many many_msg ambiguous_names_prefix [of pfx ?ms]
  show ?thesis by blast
qed

lemma sorted_desc_order_by:
  "sorted_wrt (\<lambda>a b. created_at b \<le> created_at a) (rev (sort_key created_at (rev rows)))"
proof -
  have "sorted (map created_at (sort_key created_at (rev rows)))"
    by (rule sorted_sort_key)
  then have "sorted_wrt (\<lambda>a b. created_at a \<le> created_at b) (sort_key created_at (rev rows))"
    by (simp add: sorted_map)
  then show ?thesis
    by (simp add: sorted_wrt_rev)
qed

lemma listed_before:
  assumes "sorted_wrt (\<lambda>a b. key b \<le> key a) xs"
    and "a \<in> set xs" and "b \<in> set xs" and "key a < (key b :: 'k :: linorder)"
  shows "\<exists>pre mid post. xs = pre @ b # mid @ a # post"
proof -
  from assms(3) obtain ys zs where xs: "xs = ys @ b # zs"
    by (auto dest: split_list)
  have "a \<notin> set ys"
  proof
    assume "a \<in> set ys"
    with assms(1) xs have "key b \<le> key a"
      by (auto simp: sorted_wrt_append)
    with assms(4) show False by simp
  qed
  moreover have "a \<noteq> b"
    using assms(4) by auto
  ultimately have "a \<in> set zs"
    using assms(2) xs by auto
  then obtain mid post where "zs = mid @ a # post"
    by (auto dest: split_list)
  with xs show ?thesis by blast
qed

lemma find_repo_root_put [simp]:
  "find_repo_root (put_intent_dir fs q d) p = find_repo_root fs p"
  by (rule find_repo_root_cong) simp

lemma later_created_listed_first:
  assumes "find_repo_root fs cwd = Inr repo_root"
    and "intent_at fs (repo_root @ [''.intent'']) = Directory d"
    and "intent_db d = DbFile db"
    and "has_table db ''intents''"
    and "strip t1 \<noteq> []" and "strip t2 \<noteq> []"
    and "u1 \<notin> set (map intent_id (intents db))"
    and "u2 \<notin> set (map intent_id (intents db))"
    and "u1 \<noteq> u2"
    and "n1 < n2"
    and "cmd_new fs cwd t1 p1 c1 k1 u1 n1 = (res1, fs1)"
    and "cmd_new fs1 cwd t2 p2 c2 k2 u2 n2 = (res2, fs2)"
  shows "res1 = Inr u1 \<and> res2 = Inr u2
    \<and> (\<exists>pre mid post. cmd_list fs2 cwd =
          Inr (pre @ (u2, strip t2, ''draft'', n2) # mid @ (u1, strip t1, ''draft'', n1) # post))"
proof -
  let ?q = "repo_root @ [''.intent'']"
  let ?r1 = "\<lparr>intent_id = u1, title = strip t1, problem = p1, context_text = c1,
             constraints = k1, status = ''draft'', created_at = n1, updated_at = n1\<rparr>"
  let ?r2 = "\<lparr>intent_id = u2, title = strip t2, problem = p2, context_text = c2,
             constraints = k2, status = ''draft'', created_at = n2, updated_at = n2\<rparr>"
  let ?db1 = "db\<lparr>intents := intents db @ [?r1]\<rparr>"
  let ?d1 = "d\<lparr>intent_db := DbFile ?db1\<rparr>"
  let ?db2 = "?db1\<lparr>intents := intents ?db1 @ [?r2]\<rparr>"
  let ?d2 = "?d1\<lparr>intent_db := DbFile ?db2\<rparr>"
  have new1: "cmd_new fs cwd t1 p1 c1 k1 u1 n1 = (Inr u1, put_intent_dir fs ?q ?d1)"
    by (rule cmd_new_initialized [OF assms(1-5,7)])
  with assms(11) have fs1: "res1 = Inr u1" "fs1 = put_intent_dir fs ?q ?d1"
    by simp_all
  have root1: "find_repo_root fs1 cwd = Inr repo_root"
    using assms(1) fs1(2) by simp
  have at1: "intent_at fs1 ?q = Directory ?d1"
    using fs1(2) by simp
  have fresh2: "u2 \<notin> set (map intent_id (intents ?db1))"
    using assms(8,9) by simp
  have tab1: "has_table ?db1 ''intents''"
    using assms(4) by simp
  have new2: "cmd_new fs1 cwd t2 p2 c2 k2 u2 n2 = (Inr u2, put_intent_dir fs1 ?q ?d2)"
    using cmd_new_initialized [OF root1 at1 _ tab1 assms(6) fresh2, of p2 c2 k2 n2] by simp
  with assms(12) have fs2: "res2 = Inr u2" "fs2 = put_intent_dir fs1 ?q ?d2"
    by simp_all
  have root2: "find_repo_root fs2 cwd = Inr repo_root"
    using root1 fs2(2) by simp
  have at2: "intent_at fs2 ?q = Directory ?d2"
    using fs2(2) by simp
  have tab2: "has_table ?db2 ''intents''"
    using assms(4) by simp
  let ?xs = "rev (sort_key created_at (rev (intents ?db2)))"
  have lst: "cmd_list fs2 cwd = Inr (map list_row ?xs)"
    using cmd_list_initialized [OF root2 at2 _ tab2] by simp
  have "?r1 \<in> set ?xs" "?r2 \<in> set ?xs"
    by (simp_all add: set_insort_key)
  moreover have "created_at ?r1 < created_at ?r2"
    using assms(10) by simp
  ultimately obtain pre mid post where "?xs = pre @ ?r2 # mid @ ?r1 # post"
    using listed_before [OF sorted_desc_order_by, of ?r1 "intents ?db2" ?r2] by blast
  then have "map list_row ?xs =
      map list_row pre @ list_row ?r2 # map list_row mid @ list_row ?r1 # map list_row post"
    by simp
  then have "\<exists>pre mid post. cmd_list fs2 cwd =
          Inr (pre @ (u2, strip t2, ''draft'', n2) # mid @ (u1, strip t1, ''draft'', n1) # post)"
    using lst by (auto simp: list_row_def)
  with fs1(1) fs2(1) show ?thesis by simp
qed

lemma sample_cmd_list:
  "cmd_list sample_fs sample_cwd =
     Inr [list_row limit_intent, list_row cache_intent, list_row retry_intent]"
  using cmd_list_initialized [OF sample_find_repo_root sample_intent_at sample_intent_db sample_has_table]
  by (simp add: sample_db_def retry_intent_def limit_intent_def cache_intent_def)

lemma fresh_find_repo_root: "find_repo_root fresh_fs sample_cwd = Inr sample_root"
  by (simp add: find_repo_root.simps parent_def fresh_fs_def sample_cwd_def sample_root_def)

lemma fresh_intent_at: "intent_at fresh_fs (sample_root @ [''.intent'']) = Directory fresh_dir"
  by (simp add: fresh_fs_def)

lemma fresh_intent_db: "intent_db fresh_dir = DbFile fresh_db"
  by (simp add: fresh_dir_def)

lemma fresh_has_table: "has_table fresh_db ''intents''"
  by (simp add: has_table_def fresh_db_def lower_def ascii_lower_def)

lemma fresh_two_creations:
  "cmd_list
     (snd (cmd_new
        (snd (cmd_new fresh_fs sample_cwd ''Add retry logic'' ''Calls fail'' [] []
                ''11111111-2222-4333-8444-555555555555'' ''2026-02-01T09:00:00.000010''))
        sample_cwd ''Add rate limiting'' ''Too many calls'' [] []
        ''0aaaaaaa-bbbb-4ccc-8ddd-eeeeeeeeeeee'' ''2026-02-01T09:30:00.000020''))
     sample_cwd =
   Inr [(''0aaaaaaa-bbbb-4ccc-8ddd-eeeeeeeeeeee'', ''Add rate limiting'', ''draft'',
         ''2026-02-01T09:30:00.000020''),
        (''11111111-2222-4333-8444-555555555555'', ''Add retry logic'', ''draft'',
         ''2026-02-01T09:00:00.000010'')]"
proof -
  let ?q = "sample_root @ [''.intent'']"
  have s1: "strip ''Add retry logic'' = ''Add retry logic''"
    and s2: "strip ''Add rate limiting'' = ''Add rate limiting''"
    by (simp_all add: strip_def isspace_def)
  have new1: "snd (cmd_new fresh_fs sample_cwd ''Add retry logic'' ''Calls fail'' [] []
                ''11111111-2222-4333-8444-555555555555'' ''2026-02-01T09:00:00.000010'') =
      put_intent_dir fresh_fs ?q (fresh_dir\<lparr>intent_db := DbFile (fresh_db\<lparr>intents :=
        [\<lparr>intent_id = ''11111111-2222-4333-8444-555555555555'', title = ''Add retry logic'',
          problem = ''Calls fail'', context_text = [], constraints = [], status = ''draft'',
          created_at = ''2026-02-01T09:00:00.000010'',
          updated_at = ''2026-02-01T09:00:00.000010''\<rparr>]\<rparr>)\<rparr>)"
    (is "_ = put_intent_dir fresh_fs ?q (fresh_dir\<lparr>intent_db := DbFile ?db1\<rparr>)")
    using cmd_new_initialized [OF fresh_find_repo_root fresh_intent_at fresh_intent_db fresh_has_table,
        of "''Add retry logic''" "''11111111-2222-4333-8444-555555555555''"]
    by (simp add: s1 fresh_db_def)
  let ?fs1 = "put_intent_dir fresh_fs ?q (fresh_dir\<lparr>intent_db := DbFile ?db1\<rparr>)"
  have root1: "find_repo_root ?fs1 sample_cwd = Inr sample_root"
    by (simp add: fresh_find_repo_root)
  have tab1: "has_table ?db1 ''intents''"
    by (simp add: fresh_has_table)
  have new2: "snd (cmd_new ?fs1 sample_cwd ''Add rate limiting'' ''Too many calls'' [] []
        ''0aaaaaaa-bbbb-4ccc-8ddd-eeeeeeeeeeee'' ''2026-02-01T09:30:00.000020'') =
      put_intent_dir ?fs1 ?q (fresh_dir\<lparr>intent_db := DbFile (?db1\<lparr>intents := intents ?db1 @
        [\<lparr>intent_id = ''0aaaaaaa-bbbb-4ccc-8ddd-eeeeeeeeeeee'', title = ''Add rate limiting'',
          problem = ''Too many calls'', context_text = [], constraints = [], status = ''draft'',
          created_at = ''2026-02-01T09:30:00.000020'',
          updated_at = ''2026-02-01T09:30:00.000020''\<rparr>]\<rparr>)\<rparr>)"
    (is "_ = put_intent_dir ?fs1 ?q (fresh_dir\<lparr>intent_db := DbFile ?db2\<rparr>)")
    using cmd_new_initialized [OF root1 intent_at_put _ tab1,
        of "''Add rate limiting''" "''0aaaaaaa-bbbb-4ccc-8ddd-eeeeeeeeeeee''"]
    by (simp add: s2 fresh_db_def)
  let ?fs2 = "put_intent_dir ?fs1 ?q (fresh_dir\<lparr>intent_db := DbFile ?db2\<rparr>)"
  have root2: "find_repo_root ?fs2 sample_cwd = Inr sample_root"
    by (simp add: fresh_find_repo_root)
  have tab2: "has_table ?db2 ''intents''"
    by (simp add: fresh_has_table)
  have "cmd_list ?fs2 sample_cwd =
      Inr [(''0aaaaaaa-bbbb-4ccc-8ddd-eeeeeeeeeeee'', ''Add rate limiting'', ''draft'',
         ''2026-02-01T09:30:00.000020''),
        (''11111111-2222-4333-8444-555555555555'', ''Add retry logic'', ''draft'',
         ''2026-02-01T09:00:00.000010'')]"
    using cmd_list_initialized [OF root2 intent_at_put _ tab2]
    by (simp add: list_row_def)
  then show ?thesis
    by (simp only: new1 new2)
qed

lemma sample_cmd_list_rows:
  "cmd_list sample_fs sample_cwd =
     Inr [(''3f2b8c1e-90ab-4cde-8f01-23456789abcd'', ''Add rate limiting'', ''draft'',
           ''2026-01-05T10:05:00.000002''),
          (''c0ffee00-1234-4abc-8def-0123456789ab'', ''Cache the index'', ''draft'',
           ''2026-01-05T10:02:00.000005''),
          (''3f2b8c1e-7a4d-4e9b-8c2f-1a2b3c4d5e6f'', ''Add retry logic'', ''draft'',
           ''2026-01-05T10:00:00.000001'')]"
  by (simp add: sample_cmd_list list_row_def retry_intent_def limit_intent_def cache_intent_def)

subsection \<open>Initialization is idempotent\<close>

text \<open>
  \<^verbatim>\<open>create_database_schema\<close> on a database that has the three tables changes nothing.
  A second \<^verbatim>\<open>init_intent_structure\<close> after a successful one returns the same directory
  and leaves the filesystem of the first, provided the codec reads back the descriptor
  it wrote (\<open>init_then_init_unchanged\<close>).
\<close>

lemma create_table_existing:
  "has_table db n \<Longrightarrow> create_table_if_not_exists n db = db"
  by (simp add: create_table_if_not_exists_def)

lemma create_database_schema_existing:
  assumes "has_table db ''intents''" and "has_table db ''assumptions''" and "has_table db ''decisions''"
  shows "create_database_schema (DbFile db) = Inr (DbFile db)"
  using assms by (simp add: create_database_schema_def connect_def create_table_existing)

lemma ensure_database_schema_again:
  assumes "ensure_database_schema e = Inr e'"
  shows "ensure_database_schema e' = Inr e'"
proof (cases e)
  case DbAbsent
  with assms have "e' = DbFile \<lparr>tables = [''intents'', ''assumptions'', ''decisions''], intents = []\<rparr>"
    by (auto simp: ensure_database_schema_def create_database_schema_def connect_def
        create_table_if_not_exists_def has_table_def lower_def ascii_lower_def)
  then show ?thesis
    by (simp add: ensure_database_schema_exact required_tables_def)
next
  case DbNotSqlite
  with assms show ?thesis
    by (simp add: ensure_database_schema_def)
next
  case (DbFile db)
  with assms show ?thesis
    by (auto simp: ensure_database_schema_def Let_def split: if_splits)
qed

lemma ensure_meta_json_again:
  assumes "ensure_meta_json loads dumps now1 repo_root m = Inr m'"
    and "strip (dumps (meta_data repo_root now1)) \<noteq> []"
    and "loads (strip (dumps (meta_data repo_root now1))) = Some (meta_data repo_root now1)"
  shows "ensure_meta_json loads dumps now2 repo_root m' = Inr m'"
proof (cases "needs_init loads m")
  case (Inl x)
  with assms(1) show ?thesis
    by (simp add: ensure_meta_json_def)
next
  case (Inr b)
  show ?thesis
  proof (cases b)
    case False
    with Inr assms(1) have "m' = m"
      by (simp add: ensure_meta_json_def)
    with Inr False show ?thesis
      by (simp add: ensure_meta_json_def)
  next
    case True
    with Inr assms(1) have m': "m' = MetaFile (dumps (meta_data repo_root now1))"
      by (simp add: ensure_meta_json_def split: if_splits)
    have "needs_init loads m' = Inr False"
      unfolding m' using assms(2,3)
      by (simp add: needs_init_def Let_def meta_data_def required_fields_def)
    then show ?thesis
      by (simp add: ensure_meta_json_def)
  qed
qed

lemma init_then_init_unchanged:
  assumes "init_intent_structure loads dumps now1 fs cwd = (Inr q, fs1)"
    and "\<And>r. strip (dumps (meta_data r now1)) \<noteq> []"
    and "\<And>r. loads (strip (dumps (meta_data r now1))) = Some (meta_data r now1)"
  shows "init_intent_structure loads dumps now2 fs1 cwd = (Inr q, fs1)"
proof -
  from assms(1) obtain repo_root where root: "find_repo_root fs cwd = Inr repo_root"
    by (cases "find_repo_root fs cwd") (auto simp: init_intent_structure_def Let_def)
  let ?q = "repo_root @ [''.intent'']"
  from assms(1) root obtain d where d: "mkdir_exist_ok (intent_at fs ?q) = Some d"
    by (cases "mkdir_exist_ok (intent_at fs ?q)") (auto simp: init_intent_structure_def Let_def)
  from assms(1) root d obtain db' where db: "ensure_database_schema (intent_db d) = Inr db'"
    by (cases "ensure_database_schema (intent_db d)") (auto simp: init_intent_structure_def Let_def)
  from assms(1) root d db obtain m'
    where m: "ensure_meta_json loads dumps now1 repo_root (meta_json d) = Inr m'"
    by (cases "ensure_meta_json loads dumps now1 repo_root (meta_json d)")
      (auto simp: init_intent_structure_def Let_def)
  let ?d1 = "d\<lparr>intent_db := db', meta_json := m'\<rparr>"
  from assms(1) root d db m have res: "q = ?q" "fs1 = put_intent_dir fs ?q ?d1"
    by (auto simp: init_intent_structure_def Let_def)
  have root1: "find_repo_root fs1 cwd = Inr repo_root"
    using root res(2) by simp
  have at1: "intent_at fs1 ?q = Directory ?d1"
    using res(2) by simp
  have db1: "ensure_database_schema (intent_db ?d1) = Inr db'"
    using ensure_database_schema_again [OF db] by simp
  have m1: "ensure_meta_json loads dumps now2 repo_root (meta_json ?d1) = Inr m'"
    using ensure_meta_json_again [OF m assms(2,3)] by simp
  have same: "?d1\<lparr>intent_db := db', meta_json := m'\<rparr> = ?d1"
    by simp
  show ?thesis
    using root1 at1 db1 m1 same res(1)
    by (simp add: init_intent_structure_def Let_def mkdir_exist_ok_def put_intent_dir_same)
qed

text \<open>
  Claim C5. In a state where the repository root of the working directory holds a
  directory \<^verbatim>\<open>.intent\<close>, a database whose table set is exactly the required one, and
  a descriptor that is non-empty, decodes to a JSON object and has the three required
  keys, \<^verbatim>\<open>init_intent_structure\<close> returns the directory without an error and leaves the
  filesystem (the directory, every table and row of the database, the descriptor's
  text) equal to what it was, whatever the clock and the codec.
\<close>

theorem init_twice_unchanged:
  assumes "find_repo_root fs cwd = Inr repo_root"
    and "intent_at fs (repo_root @ [''.intent'']) = Directory d"
    and "intent_db d = DbFile db"
    and "set (tables db) = set required_tables"
    and "meta_json d = MetaFile body"
    and "strip body \<noteq> []"
    and "loads (strip body) = Some (JObject kvs)"
    and "set required_fields \<subseteq> set (map fst kvs)"
  shows "init_intent_structure loads dumps now fs cwd = (Inr (repo_root @ [''.intent'']), fs)"
proof -
  have db: "ensure_database_schema (intent_db d) = Inr (DbFile db)"
    using assms(3,4) by (simp add: ensure_database_schema_exact)
  have meta: "ensure_meta_json loads dumps now repo_root (meta_json d) = Inr (MetaFile body)"
    using assms(5,6,7,8) by (simp add: ensure_meta_json_def needs_init_valid [where kvs = kvs])
  have same: "d\<lparr>intent_db := DbFile db, meta_json := MetaFile body\<rparr> = d"
    using assms(3,5) by simp
  show ?thesis
    using assms(1,2) db meta same
    by (simp add: init_intent_structure_def mkdir_exist_ok_def put_intent_dir_same)
qed

theorem init_twice_unchanged_witness:
  "find_repo_root sample_fs sample_cwd = Inr sample_root
   \<and> intent_at sample_fs (sample_root @ [''.intent'']) = Directory sample_dir
   \<and> intent_db sample_dir = DbFile sample_db
   \<and> set (tables sample_db) = set required_tables
   \<and> meta_json sample_dir = MetaFile sample_meta_text
   \<and> strip sample_meta_text \<noteq> []
   \<and> sample_loads (strip sample_meta_text) = Some sample_meta_value
   \<and> init_intent_structure sample_loads sample_dumps ''2026-01-06T08:00:00'' sample_fs sample_cwd
       = (Inr (sample_root @ [''.intent'']), sample_fs)"
proof -
  have h1: "find_repo_root sample_fs sample_cwd = Inr sample_root"
    by (rule sample_find_repo_root)
  have h2: "intent_at sample_fs (sample_root @ [''.intent'']) = Directory sample_dir"
    by (simp add: sample_fs_def)
  have h3: "intent_db sample_dir = DbFile sample_db"
    by (simp add: sample_dir_def)
  have h4: "set (tables sample_db) = set required_tables"
    by (simp add: sample_db_def required_tables_def)
  have h5: "meta_json sample_dir = MetaFile sample_meta_text"
    by (simp add: sample_dir_def)
  have h6: "strip sample_meta_text \<noteq> []"
    by (simp add: sample_strip_meta) (simp add: sample_meta_text_def)
  have h7: "sample_loads (strip sample_meta_text)
      = Some (JObject [(''repo_path'', JString ''/home/dev/proj''),
              (''created_at'', JString ''2026-01-05T09:59:00.000003''),
              (''schema_version'', JString ''0.1'')])"
    by (simp add: sample_strip_meta sample_loads_meta) (simp add: sample_meta_value_def)
  have h8: "set required_fields \<subseteq> set (map fst [(''repo_path'', JString ''/home/dev/proj''),
              (''created_at'', JString ''2026-01-05T09:59:00.000003''),
              (''schema_version'', JString ''0.1'')])"
    by (simp add: required_fields_def)
  note r = init_twice_unchanged [where loads = sample_loads and body = sample_meta_text, OF h1 h2 h3 h4 h5 h6 h7 h8]
  show ?thesis using r h1 h2 h3 h4 h5 h6 h7 by (simp add: sample_meta_value_def)
qed

subsection \<open>Create, then fetch\<close>

text \<open>
  Claim C4. In an initialized repository, for every title line that is not empty once
  stripped (the value of \<^verbatim>\<open>title\<close> that \<^verbatim>\<open>cmd_new\<close> tests and stores), any three
  texts, and a fresh 36-character id from the generator, \<^verbatim>\<open>cmd_new\<close> returns that id,
  and \<^verbatim>\<open>cmd_show\<close> with the id, on the state \<^verbatim>\<open>cmd_new\<close> leaves, fetches the record
  with the stored title, problem, context and constraints, the status \<^verbatim>\<open>draft\<close>, and
  \<^verbatim>\<open>created_at\<close> equal to \<^verbatim>\<open>updated_at\<close>.
\<close>

theorem create_then_fetch:
  assumes "find_repo_root fs cwd = Inr repo_root"
    and "intent_at fs (repo_root @ [''.intent'']) = Directory d"
    and "intent_db d = DbFile db"
    and "has_table db ''intents''"
    and "strip title_line \<noteq> []"
    and "uuid \<notin> set (map intent_id (intents db))"
    and "length uuid = 36"
  shows "fst (cmd_new fs cwd title_line p c k uuid now) = Inr uuid
    \<and> cmd_show (snd (cmd_new fs cwd title_line p c k uuid now)) cwd uuid =
        Inr \<lparr>intent_id = uuid, title = strip title_line, problem = p, context_text = c,
             constraints = k, status = ''draft'', created_at = now, updated_at = now\<rparr>"
proof -
  let ?r = "\<lparr>intent_id = uuid, title = strip title_line, problem = p, context_text = c,
             constraints = k, status = ''draft'', created_at = now, updated_at = now\<rparr>"
  let ?db = "db\<lparr>intents := intents db @ [?r]\<rparr>"
  let ?d = "d\<lparr>intent_db := DbFile ?db\<rparr>"
  let ?fs = "put_intent_dir fs (repo_root @ [''.intent'']) ?d"
  have new: "cmd_new fs cwd title_line p c k uuid now = (Inr uuid, ?fs)"
    by (rule cmd_new_initialized [OF assms(1-6)])
  have root: "find_repo_root ?fs cwd = Inr repo_root"
    using assms(1) by (simp add: find_repo_root_cong [of ?fs fs])
  have at: "intent_at ?fs (repo_root @ [''.intent'']) = Directory ?d"
    by simp
  have tab: "has_table ?db ''intents''"
    using assms(4) by simp
  have found: "find (\<lambda>r. intent_id r = uuid) (intents ?db) = Some ?r"
    using assms(6) by (simp add: find_fresh_append)
  have "cmd_show ?fs cwd uuid = Inr ?r"
    using cmd_show_initialized [OF root at _ tab, of uuid] assms(7) found by simp
  with new show ?thesis by simp
qed

theorem create_then_fetch_witness:
  "strip ''  Drop the cache '' = ''Drop the cache''
   \<and> ''9a8b7c6d-1111-4222-8333-444455556666'' \<notin> set (map intent_id (intents sample_db))
   \<and> length ''9a8b7c6d-1111-4222-8333-444455556666'' = 36
   \<and> fst (cmd_new sample_fs sample_cwd ''  Drop the cache '' ''Stale reads'' [] ''Keep the API''
         ''9a8b7c6d-1111-4222-8333-444455556666'' ''2026-01-06T08:00:00.000004'')
       = Inr ''9a8b7c6d-1111-4222-8333-444455556666''
   \<and> cmd_show (snd (cmd_new sample_fs sample_cwd ''  Drop the cache '' ''Stale reads'' [] ''Keep the API''
         ''9a8b7c6d-1111-4222-8333-444455556666'' ''2026-01-06T08:00:00.000004'')) sample_cwd
         ''9a8b7c6d-1111-4222-8333-444455556666''
       = Inr \<lparr>intent_id = ''9a8b7c6d-1111-4222-8333-444455556666'', title = ''Drop the cache'',
              problem = ''Stale reads'', context_text = [], constraints = ''Keep the API'',
              status = ''draft'', created_at = ''2026-01-06T08:00:00.000004'',
              updated_at = ''2026-01-06T08:00:00.000004''\<rparr>"
proof -
  have s: "strip ''  Drop the cache '' = ''Drop the cache''"
    by (simp add: strip_def isspace_def)
  have h5: "strip ''  Drop the cache '' \<noteq> []"
    by (simp add: s)
  have h6: "''9a8b7c6d-1111-4222-8333-444455556666'' \<notin> set (map intent_id (intents sample_db))"
    by (simp add: sample_ids)
  have h7: "length ''9a8b7c6d-1111-4222-8333-444455556666'' = 36"
    by simp
  note r = create_then_fetch [OF sample_find_repo_root sample_intent_at sample_intent_db
      sample_has_table h5 h6 h7, of "''Stale reads''" "[]" "''Keep the API''" "''2026-01-06T08:00:00.000004''"]
  show ?thesis using r s h6 h7 by simp
qed

subsection \<open>Candidates shorter than six characters\<close>

text \<open>
  Claim C9. In an initialized repository, \<^verbatim>\<open>cmd_show\<close> with a candidate of fewer than
  six characters does no prefix resolution: its result is that of the exact lookup of
  the candidate. When every stored id has 36 characters, as every id that \<^verbatim>\<open>cmd_new\<close>
  stores has, the result is the error "not found", whose message holds the candidate;
  a short candidate that is a proper prefix of exactly one stored id is such a case.
\<close>

theorem short_candidate_exact_lookup:
  assumes "find_repo_root fs cwd = Inr repo_root"
    and "intent_at fs (repo_root @ [''.intent'']) = Directory d"
    and "intent_db d = DbFile db"
    and "has_table db ''intents''"
    and "length a < 6"
  shows "cmd_show fs cwd a =
           (case find (\<lambda>r. intent_id r = a) (intents db) of
              None \<Rightarrow> Inl (IntentNotFound a) | Some r \<Rightarrow> Inr r)
    \<and> (list_all (\<lambda>r. length (intent_id r) = 36) (intents db) \<longrightarrow>
          cmd_show fs cwd a = Inl (IntentNotFound a))
    \<and> sublist a (exit_message (IntentNotFound a))"
proof -
  have eq: "cmd_show fs cwd a =
           (case find (\<lambda>r. intent_id r = a) (intents db) of
              None \<Rightarrow> Inl (IntentNotFound a) | Some r \<Rightarrow> Inr r)"
    using cmd_show_initialized [OF assms(1-4), of a] assms(5) by simp
  have nf: "cmd_show fs cwd a = Inl (IntentNotFound a)"
    if "list_all (\<lambda>r. length (intent_id r) = 36) (intents db)"
    using eq find_None_length [OF that, of a] assms(5) by simp
  have msg: "sublist a (exit_message (IntentNotFound a))"
    unfolding exit_message.simps by (rule quoted_names)
  from eq nf msg show ?thesis by blast
qed

theorem short_candidate_exact_lookup_witness:
  "length ''c0ffe'' < 6
   \<and> list_all (\<lambda>r. length (intent_id r) = 36) (intents sample_db)
   \<and> filter (\<lambda>i. strict_prefix ''c0ffe'' i) (map intent_id (intents sample_db))
       = [''c0ffee00-1234-4abc-8def-0123456789ab'']
   \<and> cmd_show sample_fs sample_cwd ''c0ffe'' = Inl (IntentNotFound ''c0ffe'')
   \<and> cmd_show sample_fs sample_cwd ''c0ffee'' = Inr cache_intent"
proof -
  have h5: "length ''c0ffe'' < 6"
    by simp
  have inv: "list_all (\<lambda>r. length (intent_id r) = 36) (intents sample_db)"
    by (simp add: sample_db_def retry_intent_def limit_intent_def cache_intent_def)
  have pre: "filter (\<lambda>i. strict_prefix ''c0ffe'' i) (map intent_id (intents sample_db))
       = [''c0ffee00-1234-4abc-8def-0123456789ab'']"
    by (simp add: sample_ids strict_prefix_def)
  note r = short_candidate_exact_lookup [OF sample_find_repo_root sample_intent_at
      sample_intent_db sample_has_table h5]
  have long: "cmd_show sample_fs sample_cwd ''c0ffee'' = Inr cache_intent"
    by (simp add: cmd_show_initialized [OF sample_find_repo_root sample_intent_at
          sample_intent_db sample_has_table] find_intent_by_prefix_def sample_has_table
        select_ids_like_def sample_ids ascii_lower_def)
      (simp add: sample_db_def retry_intent_def limit_intent_def cache_intent_def)
  from r inv have nf: "cmd_show sample_fs sample_cwd ''c0ffe'' = Inl (IntentNotFound ''c0ffe'')"
    by blast
  show ?thesis using nf h5 inv pre long by simp
qed

subsection \<open>The commands check only that the database file exists\<close>

text \<open>
  Claim C10. Whenever the repository root is found and \<^verbatim>\<open>.intent/intent.db\<close> exists,
  none of \<^verbatim>\<open>cmd_list\<close>, \<^verbatim>\<open>cmd_show\<close> and \<^verbatim>\<open>cmd_new\<close> stops with the error "not
  initialized", none of them ever reports a schema mismatch, whatever tables the
  database has, and their results do not depend on what is at \<^verbatim>\<open>meta.json\<close>.
\<close>

theorem commands_check_existence_only:
  assumes "find_repo_root fs cwd = Inr repo_root"
    and "intent_at fs (repo_root @ [''.intent'']) = Directory d"
    and "intent_db d \<noteq> DbAbsent"
  shows "cmd_list fs cwd \<noteq> Inl NotInitialized
    \<and> cmd_show fs cwd a \<noteq> Inl NotInitialized
    \<and> fst (cmd_new fs cwd t p c k u now) \<noteq> Inl NotInitialized
    \<and> cmd_list fs cwd \<noteq> Inl (SchemaMismatch ms xs)
    \<and> cmd_show fs cwd a \<noteq> Inl (SchemaMismatch ms xs)
    \<and> fst (cmd_new fs cwd t p c k u now) \<noteq> Inl (SchemaMismatch ms xs)
    \<and> cmd_list (put_intent_dir fs (repo_root @ [''.intent'']) (d\<lparr>meta_json := m\<rparr>)) cwd
        = cmd_list fs cwd
    \<and> cmd_show (put_intent_dir fs (repo_root @ [''.intent'']) (d\<lparr>meta_json := m\<rparr>)) cwd a
        = cmd_show fs cwd a
    \<and> fst (cmd_new (put_intent_dir fs (repo_root @ [''.intent'']) (d\<lparr>meta_json := m\<rparr>)) cwd t p c k u now)
        = fst (cmd_new fs cwd t p c k u now)"
proof -
  let ?q = "repo_root @ [''.intent'']"
  let ?fs = "put_intent_dir fs ?q (d\<lparr>meta_json := m\<rparr>)"
  have dir: "get_intent_dir fs cwd = Inr ?q"
    by (rule get_intent_dir_Inr [OF assms(1)])
  have ex: "intent_db_file fs ?q \<noteq> DbAbsent"
    using assms(2,3) by (simp add: intent_db_file_Directory)
  have l1: "cmd_list fs cwd \<noteq> Inl NotInitialized"
    using dir ex by (auto simp: cmd_list_def split: sum.splits)
  have s1: "cmd_show fs cwd a \<noteq> Inl NotInitialized"
    using dir ex find_intent_by_prefix_no_mismatch [of db a ms xs for db]
    by (auto simp: cmd_show_def split: sum.splits option.splits)
  have n1: "fst (cmd_new fs cwd t p c k u now) \<noteq> Inl NotInitialized"
    using dir ex by (auto simp: cmd_new_def split: sum.splits)
  have dir': "get_intent_dir ?fs cwd = get_intent_dir fs cwd"
    by (rule get_intent_dir_meta)
  have db': "intent_db_file ?fs q' = intent_db_file fs q'" for q'
    by (rule intent_db_file_meta [OF assms(2)])
  have l3: "cmd_list ?fs cwd = cmd_list fs cwd"
    by (simp add: cmd_list_def dir' dir db')
  have s3: "cmd_show ?fs cwd a = cmd_show fs cwd a"
    by (simp add: cmd_show_def dir' dir db')
  have n3: "fst (cmd_new ?fs cwd t p c k u now) = fst (cmd_new fs cwd t p c k u now)"
    by (simp add: cmd_new_def dir' dir db' split: sum.splits)
  from l1 s1 n1 l3 s3 n3 cmd_list_no_mismatch [of fs cwd ms xs]
    cmd_show_no_mismatch [of fs cwd a ms xs] cmd_new_no_mismatch [of fs cwd t p c k u now ms xs]
  show ?thesis by blast
qed

theorem commands_check_existence_only_witness:
  "intent_db drifted_dir \<noteq> DbAbsent
   \<and> ensure_database_schema (intent_db drifted_dir)
       = Inl (SchemaMismatch [''decisions''] [])
   \<and> cmd_list drifted_fs sample_cwd = Inr [list_row retry_intent]
   \<and> cmd_list drifted_fs sample_cwd \<noteq> Inl (SchemaMismatch [''decisions''] [])
   \<and> cmd_show drifted_fs sample_cwd ''3f2b8c1e'' \<noteq> Inl (SchemaMismatch [''decisions''] [])
   \<and> cmd_list (put_intent_dir drifted_fs (sample_root @ [''.intent''])
          (drifted_dir\<lparr>meta_json := MetaFile ''42''\<rparr>)) sample_cwd
       = cmd_list drifted_fs sample_cwd"
proof -
  have h3: "intent_db drifted_dir \<noteq> DbAbsent"
    by (simp add: drifted_dir_def)
  have mism: "ensure_database_schema (intent_db drifted_dir)
       = Inl (SchemaMismatch [''decisions''] [])"
    by (simp add: ensure_database_schema_DbFile drifted_dir_def drifted_db_def required_tables_def)
  have lst: "cmd_list drifted_fs sample_cwd = Inr [list_row retry_intent]"
    using cmd_list_initialized [OF drifted_find_repo_root drifted_intent_at _ drifted_has_table]
    by (simp add: drifted_dir_def) (simp add: drifted_db_def)
  note r = commands_check_existence_only [OF drifted_find_repo_root drifted_intent_at h3,
      of "''3f2b8c1e''" "''t''" "[]" "[]" "[]" "''9a8b7c6d-1111-4222-8333-444455556666''" "''2026-01-06T08:00:00''"
         "[''decisions'']" "[]" "MetaFile ''42''"]
  show ?thesis using r h3 mism lst by simp
qed

subsection \<open>Listing\<close>

text \<open>
  Claim C7. In an initialized repository \<^verbatim>\<open>cmd_list\<close> fetches exactly the stored
  records: as many rows as the table has, and the multiset of the tuples
  (\<^verbatim>\<open>id\<close>, \<^verbatim>\<open>title\<close>, \<^verbatim>\<open>status\<close>, \<^verbatim>\<open>created_at\<close>) of the stored records. The rows are
  ordered by their fourth column, \<^verbatim>\<open>created_at\<close>, descending, so of two stored
  records the one with the later \<^verbatim>\<open>created_at\<close> is listed before the other. In
  particular, after two creations, the second at a later clock text than the first,
  the listing has the row of the second intent before the row of the first.
\<close>

theorem list_newest_first:
  assumes "find_repo_root fs cwd = Inr repo_root"
    and "intent_at fs (repo_root @ [''.intent'']) = Directory d"
    and "intent_db d = DbFile db"
    and "has_table db ''intents''"
  shows "(\<exists>rows. cmd_list fs cwd = Inr rows
      \<and> length rows = length (intents db)
      \<and> mset rows = mset (map (\<lambda>r. (intent_id r, title r, status r, created_at r)) (intents db))
      \<and> sorted_wrt (\<lambda>x y. snd (snd (snd y)) \<le> snd (snd (snd x))) rows
      \<and> (\<forall>a b. a \<in> set (intents db) \<and> b \<in> set (intents db) \<and> created_at a < created_at b \<longrightarrow>
            (\<exists>pre mid post. rows =
               pre @ (intent_id b, title b, status b, created_at b)
                 # mid @ (intent_id a, title a, status a, created_at a) # post)))
    \<and> (strip t1 \<noteq> [] \<and> strip t2 \<noteq> []
         \<and> u1 \<notin> set (map intent_id (intents db)) \<and> u2 \<notin> set (map intent_id (intents db))
         \<and> u1 \<noteq> u2 \<and> n1 < n2 \<longrightarrow>
         (\<exists>pre mid post.
            cmd_list (snd (cmd_new (snd (cmd_new fs cwd t1 p1 c1 k1 u1 n1)) cwd t2 p2 c2 k2 u2 n2)) cwd =
              Inr (pre @ (u2, strip t2, ''draft'', n2) # mid @ (u1, strip t1, ''draft'', n1) # post)))"
proof -
  let ?row = "\<lambda>r. (intent_id r, title r, status r, created_at r)"
  let ?xs = "rev (sort_key created_at (rev (intents db)))"
  let ?rows = "map ?row ?xs"
  have row: "list_row = ?row"
    by (rule ext) (simp add: list_row_def)
  have res: "cmd_list fs cwd = Inr ?rows"
    using cmd_list_initialized [OF assms] by (simp add: row)
  have len: "length ?rows = length (intents db)"
    by simp
  have perm: "mset ?rows = mset (map ?row (intents db))"
    by simp
  have srt: "sorted_wrt (\<lambda>x y. snd (snd (snd y)) \<le> snd (snd (snd x))) ?rows"
    using sorted_desc_order_by [of "intents db"] by (simp add: sorted_wrt_map)
  have before: "\<exists>pre mid post. ?rows = pre @ ?row b # mid @ ?row a # post"
    if "a \<in> set (intents db)" "b \<in> set (intents db)" "created_at a < created_at b" for a b
  proof -
    have "a \<in> set ?xs" "b \<in> set ?xs"
      using that by simp_all
    from listed_before [OF sorted_desc_order_by this that(3)]
    obtain pre mid post where "?xs = pre @ b # mid @ a # post"
      by blast
    then have "?rows = map ?row pre @ ?row b # map ?row mid @ ?row a # map ?row post"
      by simp
    then show ?thesis by blast
  qed
  have first: "\<exists>rows. cmd_list fs cwd = Inr rows
      \<and> length rows = length (intents db)
      \<and> mset rows = mset (map ?row (intents db))
      \<and> sorted_wrt (\<lambda>x y. snd (snd (snd y)) \<le> snd (snd (snd x))) rows
      \<and> (\<forall>a b. a \<in> set (intents db) \<and> b \<in> set (intents db) \<and> created_at a < created_at b \<longrightarrow>
            (\<exists>pre mid post. rows = pre @ ?row b # mid @ ?row a # post))"
    using res len perm srt before by blast
  have second: "\<exists>pre mid post.
            cmd_list (snd (cmd_new (snd (cmd_new fs cwd t1 p1 c1 k1 u1 n1)) cwd t2 p2 c2 k2 u2 n2)) cwd =
              Inr (pre @ (u2, strip t2, ''draft'', n2) # mid @ (u1, strip t1, ''draft'', n1) # post)"
    if "strip t1 \<noteq> []" "strip t2 \<noteq> []"
      "u1 \<notin> set (map intent_id (intents db))" "u2 \<notin> set (map intent_id (intents db))"
      "u1 \<noteq> u2" "n1 < n2"
    using later_created_listed_first [OF assms that,
        of p1 c1 k1 "fst (cmd_new fs cwd t1 p1 c1 k1 u1 n1)" "snd (cmd_new fs cwd t1 p1 c1 k1 u1 n1)"
           p2 c2 k2 "fst (cmd_new (snd (cmd_new fs cwd t1 p1 c1 k1 u1 n1)) cwd t2 p2 c2 k2 u2 n2)"
           "snd (cmd_new (snd (cmd_new fs cwd t1 p1 c1 k1 u1 n1)) cwd t2 p2 c2 k2 u2 n2)"]
    by simp
  from first second show ?thesis by blast
qed

theorem list_newest_first_witness:
  "cmd_list sample_fs sample_cwd =
     Inr [(''3f2b8c1e-90ab-4cde-8f01-23456789abcd'', ''Add rate limiting'', ''draft'',
           ''2026-01-05T10:05:00.000002''),
          (''c0ffee00-1234-4abc-8def-0123456789ab'', ''Cache the index'', ''draft'',
           ''2026-01-05T10:02:00.000005''),
          (''3f2b8c1e-7a4d-4e9b-8c2f-1a2b3c4d5e6f'', ''Add retry logic'', ''draft'',
           ''2026-01-05T10:00:00.000001'')]
   \<and> (\<exists>rows. cmd_list sample_fs sample_cwd = Inr rows
        \<and> length rows = length (intents sample_db)
        \<and> sorted_wrt (\<lambda>x y. snd (snd (snd y)) \<le> snd (snd (snd x))) rows)
   \<and> ''2026-02-01T09:00:00.000010'' < ''2026-02-01T09:30:00.000020''
   \<and> (\<exists>pre mid post.
         cmd_list
           (snd (cmd_new
              (snd (cmd_new fresh_fs sample_cwd ''Add retry logic'' ''Calls fail'' [] []
                      ''11111111-2222-4333-8444-555555555555'' ''2026-02-01T09:00:00.000010''))
              sample_cwd ''Add rate limiting'' ''Too many calls'' [] []
              ''0aaaaaaa-bbbb-4ccc-8ddd-eeeeeeeeeeee'' ''2026-02-01T09:30:00.000020''))
           sample_cwd =
         Inr (pre @ (''0aaaaaaa-bbbb-4ccc-8ddd-eeeeeeeeeeee'', ''Add rate limiting'', ''draft'',
                     ''2026-02-01T09:30:00.000020'')
                # mid @ (''11111111-2222-4333-8444-555555555555'', ''Add retry logic'', ''draft'',
                     ''2026-02-01T09:00:00.000010'') # post))
   \<and> cmd_list
         (snd (cmd_new
            (snd (cmd_new fresh_fs sample_cwd ''Add retry logic'' ''Calls fail'' [] []
                    ''11111111-2222-4333-8444-555555555555'' ''2026-02-01T09:00:00.000010''))
            sample_cwd ''Add rate limiting'' ''Too many calls'' [] []
            ''0aaaaaaa-bbbb-4ccc-8ddd-eeeeeeeeeeee'' ''2026-02-01T09:30:00.000020''))
         sample_cwd =
       Inr [(''0aaaaaaa-bbbb-4ccc-8ddd-eeeeeeeeeeee'', ''Add rate limiting'', ''draft'',
             ''2026-02-01T09:30:00.000020''),
            (''11111111-2222-4333-8444-555555555555'', ''Add retry logic'', ''draft'',
             ''2026-02-01T09:00:00.000010'')]"
proof -
  note r1 = list_newest_first [OF sample_find_repo_root sample_intent_at sample_intent_db
      sample_has_table]
  from r1 have rows: "\<exists>rows. cmd_list sample_fs sample_cwd = Inr rows
        \<and> length rows = length (intents sample_db)
        \<and> sorted_wrt (\<lambda>x y. snd (snd (snd y)) \<le> snd (snd (snd x))) rows"
    by blast
  have s1: "strip ''Add retry logic'' \<noteq> []" and s2: "strip ''Add rate limiting'' \<noteq> []"
    by (simp_all add: strip_def isspace_def)
  have fresh: "''11111111-2222-4333-8444-555555555555'' \<notin> set (map intent_id (intents fresh_db))"
    "''0aaaaaaa-bbbb-4ccc-8ddd-eeeeeeeeeeee'' \<notin> set (map intent_id (intents fresh_db))"
    by (simp_all add: fresh_db_def)
  have ne: "''11111111-2222-4333-8444-555555555555'' \<noteq> ''0aaaaaaa-bbbb-4ccc-8ddd-eeeeeeeeeeee''"
    by simp
  have lt: "''2026-02-01T09:00:00.000010'' < ''2026-02-01T09:30:00.000020''"
    by simp
  note r2 = list_newest_first [OF fresh_find_repo_root fresh_intent_at fresh_intent_db
      fresh_has_table,
      of "''Add retry logic''" "''Add rate limiting''"
         "''11111111-2222-4333-8444-555555555555''" "''0aaaaaaa-bbbb-4ccc-8ddd-eeeeeeeeeeee''"
         "''2026-02-01T09:00:00.000010''" "''2026-02-01T09:30:00.000020''"
         "''Calls fail''" "[]" "[]" "''Too many calls''" "[]" "[]"]
  have st: "strip ''Add retry logic'' = ''Add retry logic''"
    "strip ''Add rate limiting'' = ''Add rate limiting''"
    by (simp_all add: strip_def isspace_def)
  from r2 s1 s2 fresh ne lt have scen: "\<exists>pre mid post.
         cmd_list
           (snd (cmd_new
              (snd (cmd_new fresh_fs sample_cwd ''Add retry logic'' ''Calls fail'' [] []
                      ''11111111-2222-4333-8444-555555555555'' ''2026-02-01T09:00:00.000010''))
              sample_cwd ''Add rate limiting'' ''Too many calls'' [] []
              ''0aaaaaaa-bbbb-4ccc-8ddd-eeeeeeeeeeee'' ''2026-02-01T09:30:00.000020''))
           sample_cwd =
         Inr (pre @ (''0aaaaaaa-bbbb-4ccc-8ddd-eeeeeeeeeeee'', strip ''Add rate limiting'', ''draft'',
                     ''2026-02-01T09:30:00.000020'')
                # mid @ (''11111111-2222-4333-8444-555555555555'', strip ''Add retry logic'', ''draft'',
                     ''2026-02-01T09:00:00.000010'') # post)"
    by blast
  from sample_cmd_list_rows rows lt scen [unfolded st] fresh_two_creations
  show ?thesis by blast
qed

subsection \<open>What the locator examines\<close>

text \<open>
  \<^verbatim>\<open>find_repo_root\<close> returns the nearest directory with the marker among the starting
  directory and its ancestors below the filesystem root, and fails exactly when none
  of these has it. The filesystem root is never examined.
\<close>

lemma find_repo_root_nearest:
  "find_repo_root fs p = Inr r \<longleftrightarrow>
     r \<noteq> [] \<and> prefix r p \<and> git_dir fs r
     \<and> (\<forall>q. prefix q p \<and> length r < length q \<longrightarrow> \<not> git_dir fs q)"
proof (induction p rule: rev_induct)
  case Nil
  show ?case by (auto simp: find_repo_root_root)
next
  case (snoc d p)
  show ?case
  proof (cases "git_dir fs (p @ [d])")
    case True
    have "r = p @ [d]" if "prefix r (p @ [d])"
      "\<forall>q. prefix q (p @ [d]) \<and> length r < length q \<longrightarrow> \<not> git_dir fs q"
    proof (rule ccontr)
      assume "r \<noteq> p @ [d]"
      with that(1) have "length r < length (p @ [d])"
        by (metis prefix_length_le le_neq_implies_less prefix_length_prefix prefix_order.dual_order.refl prefix_order.eq_iff)
      with that(2) True show False by blast
    qed
    with True show ?thesis
      by (auto simp: find_repo_root_snoc dest: prefix_length_le)
  next
    case False
    then show ?thesis
      using snoc.IH by (auto simp: find_repo_root_snoc prefix_snoc)
  qed
qed

lemma find_repo_root_error:
  "find_repo_root fs p = Inl e \<longleftrightarrow>
     e = NotARepository \<and> (\<forall>q. prefix q p \<and> q \<noteq> [] \<longrightarrow> \<not> git_dir fs q)"
proof (induction p rule: rev_induct)
  case Nil
  show ?case by (auto simp: find_repo_root_root)
next
  case (snoc d p)
  then show ?case
    by (auto simp: find_repo_root_snoc prefix_snoc)
qed

text \<open>
  Claim C2 says that the filesystem root is examined too, and returned when the marker
  is there. The loop stops when \<^verbatim>\<open>current\<close> is the root, before looking at it: with
  the marker at the root only, the locator fails from the root and from a directory
  below it.
\<close>

theorem marker_at_root_not_found:
  "git_dir root_marker_fs [] 
   \<and> find_repo_root root_marker_fs [] = Inl NotARepository
   \<and> find_repo_root root_marker_fs [''srv'', ''app''] = Inl NotARepository"
  by (simp add: find_repo_root.simps parent_def root_marker_fs_def)

subsection \<open>Schema conformance\<close>

text \<open>
  On an existing database \<^verbatim>\<open>ensure_database_schema\<close> succeeds exactly when the three
  required tables are present, and otherwise lists the missing ones; the list of
  unexpected tables in its error is always empty, because the query keeps the three
  required names only.
\<close>

lemma schema_mismatch_lists_no_extra:
  assumes "ensure_database_schema e = Inl (SchemaMismatch ms xs)"
  shows "xs = []"
proof (cases e)
  case DbAbsent
  with assms show ?thesis
    by (simp add: ensure_database_schema_def create_database_schema_def connect_def)
next
  case DbNotSqlite
  with assms show ?thesis
    by (simp add: ensure_database_schema_def)
next
  case (DbFile db)
  with assms show ?thesis
    by (simp add: ensure_database_schema_DbFile split: if_splits)
qed

text \<open>
  Claim C1 says that a database with the three required tables and an unexpected one
  is a mismatch, reported with the unexpected table's name. The check accepts such a
  database.
\<close>

theorem unexpected_table_accepted:
  "filter (\<lambda>t. t \<notin> set required_tables) (tables extra_table_db) = [''legacy_notes'']
   \<and> set (tables extra_table_db) \<noteq> set required_tables
   \<and> ensure_database_schema (DbFile extra_table_db) = Inr (DbFile extra_table_db)"
proof -
  have extra: "filter (\<lambda>t. t \<notin> set required_tables) (tables extra_table_db) = [''legacy_notes'']"
    by (simp add: extra_table_db_def required_tables_def)
  have "''legacy_notes'' \<in> set (tables extra_table_db)" "''legacy_notes'' \<notin> set required_tables"
    by (simp_all add: extra_table_db_def required_tables_def)
  then have ne: "set (tables extra_table_db) \<noteq> set required_tables"
    by blast
  have sub: "set required_tables \<subseteq> set (tables extra_table_db)"
    by (simp add: extra_table_db_def required_tables_def)
  have ok: "ensure_database_schema (DbFile extra_table_db) = Inr (DbFile extra_table_db)"
    using sub by (simp add: ensure_database_schema_DbFile)
  from extra ne ok show ?thesis by blast
qed

subsection \<open>Which ids a candidate selects\<close>

text \<open>
  For a candidate without \<^verbatim>\<open>%\<close> and \<^verbatim>\<open>_\<close> the query of \<^verbatim>\<open>find_intent_by_prefix\<close>
  selects the ids that begin with the candidate up to the case of ASCII letters
  (\<open>like_plain_prefix\<close>). A candidate of 36 characters or more is looked up as it is
  (\<open>cmd_show_long_argument\<close>).
\<close>

lemma like_percent [simp]: "like ''%'' s"
  by (induction s) auto

lemma like_plain_prefix:
  assumes "CHR ''%'' \<notin> set p" and "CHR ''_'' \<notin> set p"
  shows "like (p @ ''%'') s \<longleftrightarrow> length p \<le> length s \<and> lower p = lower (take (length p) s)"
  using assms
proof (induction p arbitrary: s)
  case Nil
  show ?case by (simp add: lower_def)
next
  case (Cons c p)
  show ?case
  proof (cases s)
    case Nil
    with Cons.prems show ?thesis by auto
  next
    case (Cons x s')
    with Cons.prems Cons.IH [of s'] show ?thesis
      by (auto simp: lower_def)
  qed
qed

lemma cmd_show_long_argument:
  assumes "find_repo_root fs cwd = Inr repo_root"
    and "intent_at fs (repo_root @ [''.intent'']) = Directory d"
    and "intent_db d = DbFile db"
    and "has_table db ''intents''"
    and "36 \<le> length a"
  shows "cmd_show fs cwd a =
           (case find (\<lambda>r. intent_id r = a) (intents db) of
              None \<Rightarrow> Inl (IntentNotFound a) | Some r \<Rightarrow> Inr r)"
  using cmd_show_initialized [OF assms(1-4), of a] assms(5) by simp


lemma like_percent_skip: "like p s \<Longrightarrow> like (CHR ''%'' # p) s"
  by (cases s) simp_all

lemma like_percents: "like ''%%%%%%%'' s"
  by (intro like_percent_skip like_percent)

lemma ascii_lower_samples:
  "ascii_lower CHR ''C'' = CHR ''c''" "ascii_lower CHR ''F'' = CHR ''f''"
  "ascii_lower CHR ''E'' = CHR ''e''" "ascii_lower CHR ''c'' = CHR ''c''"
  "ascii_lower CHR ''f'' = CHR ''f''" "ascii_lower CHR ''e'' = CHR ''e''"
  "ascii_lower CHR ''0'' = CHR ''0''" "ascii_lower CHR ''3'' = CHR ''3''"
  "ascii_lower CHR ''9'' = CHR ''9''"
  by (simp_all add: ascii_lower_def char_of_eq_iff)

lemma sample_like_upper:
  "select_ids_like sample_db ''C0FFEE__%'' = [''c0ffee00-1234-4abc-8def-0123456789ab'']"
  by (simp add: select_ids_like_def sample_ids ascii_lower_samples)

lemma sample_like_all:
  "select_ids_like sample_db ''%%%%%%%'' = map intent_id (intents sample_db)"
proof -
  have "filter (like ''%%%%%%%'') (map intent_id (intents sample_db)) = map intent_id (intents sample_db)"
    by (rule filter_True) (simp add: like_percents)
  moreover have "sort (map intent_id (intents sample_db)) = map intent_id (intents sample_db)"
    by (simp add: sample_ids)
  ultimately show ?thesis
    unfolding select_ids_like_def by (simp only:)
qed

text \<open>
  Claim C3 says that a candidate of 6 to 35 characters selects exactly the ids of which
  it is a literal, case-sensitive prefix, \<^verbatim>\<open>%\<close> and \<^verbatim>\<open>_\<close> included. The query is a
  \<^verbatim>\<open>LIKE\<close> without \<^verbatim>\<open>ESCAPE\<close>: the candidate \<^verbatim>\<open>C0FFEE__\<close> is a literal prefix of no
  stored id and resolves to one, and \<^verbatim>\<open>%%%%%%\<close> selects every stored id.
\<close>

theorem like_is_not_literal_prefix:
  "6 \<le> length ''C0FFEE__'' \<and> length ''C0FFEE__'' < 36
   \<and> filter (prefix ''C0FFEE__'') (map intent_id (intents sample_db)) = []
   \<and> find_intent_by_prefix sample_db ''C0FFEE__'' = Inr ''c0ffee00-1234-4abc-8def-0123456789ab''
   \<and> cmd_show sample_fs sample_cwd ''C0FFEE__'' = Inr cache_intent
   \<and> find_intent_by_prefix sample_db ''%%%%%%'' =
       Inl (AmbiguousPrefix ''%%%%%%'' (map intent_id (intents sample_db)))"
proof -
  have res: "find_intent_by_prefix sample_db ''C0FFEE__'' = Inr ''c0ffee00-1234-4abc-8def-0123456789ab''"
    using sample_like_upper by (simp add: find_intent_by_prefix_def sample_has_table)
  have found: "find (\<lambda>r. intent_id r = ''c0ffee00-1234-4abc-8def-0123456789ab'') (intents sample_db)
      = Some cache_intent"
    by (simp add: sample_db_def retry_intent_def limit_intent_def cache_intent_def)
  have shw: "cmd_show sample_fs sample_cwd ''C0FFEE__'' = Inr cache_intent"
    using res found
    by (simp add: cmd_show_initialized [OF sample_find_repo_root sample_intent_at
          sample_intent_db sample_has_table])
  have lit: "filter (prefix ''C0FFEE__'') (map intent_id (intents sample_db)) = []"
    by (simp add: sample_ids)
  have amb: "find_intent_by_prefix sample_db ''%%%%%%'' =
       Inl (AmbiguousPrefix ''%%%%%%'' (map intent_id (intents sample_db)))"
    using sample_like_all by (simp add: find_intent_by_prefix_def sample_has_table sample_ids)
  from lit res shw amb show ?thesis by simp
qed

subsection \<open>Outcomes of prefix resolution\<close>

text \<open>
  \<^verbatim>\<open>find_intent_by_prefix\<close> decides by the ids its query selects
  (\<open>find_intent_by_prefix_cases\<close>). When the candidate has neither \<^verbatim>\<open>%\<close> nor \<^verbatim>\<open>_\<close> and
  neither it nor a stored id has an upper-case ASCII letter, as is the case for the
  ids \<^verbatim>\<open>cmd_new\<close> stores, these are the ids that begin with the candidate, and the
  outcome is the one of the claim below: "not found" for no such id, the id for one,
  "ambiguous" with all of them for two or more (\<open>prefix_resolution_plain\<close>).
\<close>

lemma like_plain_lower:
  assumes "CHR ''%'' \<notin> set p" and "CHR ''_'' \<notin> set p" and "lower p = p" and "lower s = s"
  shows "like (p @ ''%'') s \<longleftrightarrow> prefix p s"
proof -
  have "lower (take (length p) s) = take (length p) s"
    using assms(4) by (metis lower_def take_map)
  then have "like (p @ ''%'') s \<longleftrightarrow> length p \<le> length s \<and> p = take (length p) s"
    using like_plain_prefix [OF assms(1,2), of s] assms(3) by simp
  also have "\<dots> \<longleftrightarrow> prefix p s"
    by (metis append_take_drop_id prefix_def prefix_length_le append_eq_conv_conj)
  finally show ?thesis .
qed

lemma select_ids_like_plain:
  assumes "CHR ''%'' \<notin> set pfx" and "CHR ''_'' \<notin> set pfx" and "lower pfx = pfx"
    and "list_all (\<lambda>r. lower (intent_id r) = intent_id r) (intents db)"
  shows "select_ids_like db (pfx @ ''%'') = sort (filter (prefix pfx) (map intent_id (intents db)))"
proof -
  have "filter (like (pfx @ ''%'')) (map intent_id (intents db))
      = filter (prefix pfx) (map intent_id (intents db))"
  proof (rule filter_cong [OF refl])
    fix i assume "i \<in> set (map intent_id (intents db))"
    with assms(4) have "lower i = i"
      by (auto simp: list_all_iff)
    then show "like (pfx @ ''%'') i = prefix pfx i"
      by (rule like_plain_lower [OF assms(1-3)])
  qed
  then show ?thesis
    by (simp only: select_ids_like_def)
qed

lemma prefix_resolution_plain:
  assumes "has_table db ''intents''"
    and "CHR ''%'' \<notin> set pfx" and "CHR ''_'' \<notin> set pfx" and "lower pfx = pfx"
    and "list_all (\<lambda>r. lower (intent_id r) = intent_id r) (intents db)"
  shows "(filter (prefix pfx) (map intent_id (intents db)) = [] \<longrightarrow>
            find_intent_by_prefix db pfx = Inl (NoPrefixMatch pfx))
    \<and> (\<forall>m. filter (prefix pfx) (map intent_id (intents db)) = [m] \<longrightarrow>
            find_intent_by_prefix db pfx = Inr m)
    \<and> (2 \<le> length (filter (prefix pfx) (map intent_id (intents db))) \<longrightarrow>
            find_intent_by_prefix db pfx =
              Inl (AmbiguousPrefix pfx (sort (filter (prefix pfx) (map intent_id (intents db))))))"
proof -
  let ?ms = "filter (prefix pfx) (map intent_id (intents db))"
  have sel: "select_ids_like db (pfx @ ''%'') = sort ?ms"
    by (rule select_ids_like_plain [OF assms(2-5)])
  note c = find_intent_by_prefix_cases [OF assms(1), of pfx, unfolded sel]
  have "sort ?ms = []" if "?ms = []"
    using that by simp
  moreover have "sort ?ms = [m]" if "?ms = [m]" for m
    using that by simp
  moreover have "2 \<le> length (sort ?ms)" if "2 \<le> length ?ms"
    using that by simp
  ultimately show ?thesis
    using c by blast
qed

lemma sample_like_underscores:
  "select_ids_like sample_db ''c0ffee__%'' = [''c0ffee00-1234-4abc-8def-0123456789ab'']"
  by (simp add: select_ids_like_def sample_ids ascii_lower_samples)

lemma sample_like_underscore_two:
  "select_ids_like sample_db ''3f2b8c1e-_%'' =
     [''3f2b8c1e-7a4d-4e9b-8c2f-1a2b3c4d5e6f'', ''3f2b8c1e-90ab-4cde-8f01-23456789abcd'']"
  by (simp add: select_ids_like_def sample_ids ascii_lower_def)

text \<open>
  Claim C6 says that a candidate that is a prefix of no stored id fails with the error
  "not found", and that the error "ambiguous" lists the ids the candidate is a prefix
  of. The candidates \<^verbatim>\<open>c0ffee__\<close> and \<^verbatim>\<open>3f2b8c1e-_\<close> are prefixes of no stored id; the
  first resolves to an id and the second is reported ambiguous between two ids. The
  cause is the one of claim C3: \<^verbatim>\<open>_\<close> and \<^verbatim>\<open>%\<close> are wildcards of the \<^verbatim>\<open>LIKE\<close> query.
\<close>

theorem wildcard_candidate_miscounted:
  "6 \<le> length ''c0ffee__'' \<and> length ''c0ffee__'' < 36
   \<and> filter (prefix ''c0ffee__'') (map intent_id (intents sample_db)) = []
   \<and> find_intent_by_prefix sample_db ''c0ffee__'' = Inr ''c0ffee00-1234-4abc-8def-0123456789ab''
   \<and> 6 \<le> length ''3f2b8c1e-_'' \<and> length ''3f2b8c1e-_'' < 36
   \<and> filter (prefix ''3f2b8c1e-_'') (map intent_id (intents sample_db)) = []
   \<and> find_intent_by_prefix sample_db ''3f2b8c1e-_'' =
       Inl (AmbiguousPrefix ''3f2b8c1e-_''
         [''3f2b8c1e-7a4d-4e9b-8c2f-1a2b3c4d5e6f'', ''3f2b8c1e-90ab-4cde-8f01-23456789abcd''])"
proof -
  have lit1: "filter (prefix ''c0ffee__'') (map intent_id (intents sample_db)) = []"
    and lit2: "filter (prefix ''3f2b8c1e-_'') (map intent_id (intents sample_db)) = []"
    by (simp_all add: sample_ids)
  have one: "find_intent_by_prefix sample_db ''c0ffee__'' = Inr ''c0ffee00-1234-4abc-8def-0123456789ab''"
    using sample_like_underscores by (simp add: find_intent_by_prefix_def sample_has_table)
  have two: "find_intent_by_prefix sample_db ''3f2b8c1e-_'' =
       Inl (AmbiguousPrefix ''3f2b8c1e-_''
         [''3f2b8c1e-7a4d-4e9b-8c2f-1a2b3c4d5e6f'', ''3f2b8c1e-90ab-4cde-8f01-23456789abcd''])"
    using sample_like_underscore_two by (simp add: find_intent_by_prefix_def sample_has_table)
  from lit1 lit2 one two show ?thesis by simp
qed

subsection \<open>The metadata descriptor\<close>

text \<open>
  Whatever the decoder and the encoder: a descriptor that is not empty and decodes to
  an object with the three keys is left as it is, whatever the values under the keys;
  a descriptor that is missing, empty once stripped, not decodable, or an object
  without one of the keys is replaced by the encoding of \<open>meta_data\<close>. A descriptor that
  decodes to a number, a boolean or \<^verbatim>\<open>null\<close> raises \<^verbatim>\<open>TypeError\<close> at the first
  \<^verbatim>\<open>field in data\<close>, which the handler of \<^verbatim>\<open>ensure_meta_json\<close> does not catch; nor
  does it catch the \<^verbatim>\<open>UnicodeDecodeError\<close> of a file that is not UTF-8.
\<close>

lemma ensure_meta_json_valid_untouched:
  assumes "strip body \<noteq> []" and "loads (strip body) = Some (JObject kvs)"
    and "set required_fields \<subseteq> set (map fst kvs)"
  shows "ensure_meta_json loads dumps now repo_root (MetaFile body) = Inr (MetaFile body)"
  using assms by (simp add: ensure_meta_json_def needs_init_valid [where kvs = kvs])

lemma ensure_meta_json_absent:
  "ensure_meta_json loads dumps now repo_root MetaAbsent
     = Inr (MetaFile (dumps (meta_data repo_root now)))"
  by (simp add: ensure_meta_json_def needs_init_def Let_def)

lemma ensure_meta_json_empty:
  "strip body = [] \<Longrightarrow>
   ensure_meta_json loads dumps now repo_root (MetaFile body)
     = Inr (MetaFile (dumps (meta_data repo_root now)))"
  by (simp add: ensure_meta_json_def needs_init_def Let_def)

lemma ensure_meta_json_unparsable:
  "loads (strip body) = None \<Longrightarrow>
   ensure_meta_json loads dumps now repo_root (MetaFile body)
     = Inr (MetaFile (dumps (meta_data repo_root now)))"
  by (simp add: ensure_meta_json_def needs_init_def Let_def)

lemma ensure_meta_json_object_lacks_field:
  assumes "loads (strip body) = Some (JObject kvs)"
    and "\<not> set required_fields \<subseteq> set (map fst kvs)"
  shows "ensure_meta_json loads dumps now repo_root (MetaFile body)
     = Inr (MetaFile (dumps (meta_data repo_root now)))"
  using assms by (simp add: ensure_meta_json_def needs_init_def Let_def all_fields_in_object)

lemma ensure_meta_json_not_utf8:
  "ensure_meta_json loads dumps now repo_root MetaNotUtf8 = Inl (Uncaught UnicodeDecodeError)"
  by (simp add: ensure_meta_json_def needs_init_def)

lemma ensure_meta_json_scalar:
  assumes "strip body \<noteq> []" and "loads (strip body) = Some v"
    and "v = JInt i \<or> v = JFloat x \<or> v = JBool b \<or> v = JNull"
  shows "ensure_meta_json loads dumps now repo_root (MetaFile body) = Inl (Uncaught TypeError)"
  using assms by (auto simp: ensure_meta_json_def needs_init_def Let_def required_fields_def)

text \<open>
  Claim C8 says that every descriptor without the three fields is rewritten. The
  descriptor whose text is \<^verbatim>\<open>42\<close> is valid JSON without any field; \<^verbatim>\<open>ensure_meta_json\<close>
  neither rewrites it nor returns.
\<close>

theorem scalar_descriptor_raises:
  "strip ''42'' = ''42''
   \<and> sample_loads ''42'' = Some (JInt 42)
   \<and> ensure_meta_json sample_loads sample_dumps ''2026-01-06T08:00:00.000004'' sample_root
         (MetaFile ''42'') = Inl (Uncaught TypeError)"
proof -
  have s: "strip ''42'' = ''42''"
    by (simp add: strip_def isspace_def)
  have l: "sample_loads ''42'' = Some (JInt 42)"
    by (simp add: sample_loads_def sample_meta_text_def)
  have "ensure_meta_json sample_loads sample_dumps ''2026-01-06T08:00:00.000004'' sample_root
         (MetaFile ''42'') = Inl (Uncaught TypeError)"
    using s l by (simp add: ensure_meta_json_def needs_init_def Let_def required_fields_def)
  with s l show ?thesis by simp
qed

end
